theory Spec2Isabelle
  imports Main
begin

section \<open>Appointment scheduling: the controller of turnos over its store\<close>

text \<open>
  The development embeds \<^verbatim>\<open>createAppointment\<close> and \<^verbatim>\<open>editAppointment\<close> of the
  appointment controller, the three Mongoose schemas they work on (appointment, Paciente,
  Doctor) and the validator chain \<^verbatim>\<open>turnoValidator\<close> of the create route. The store is
  passed explicitly, every \<^verbatim>\<open>next(new HttpError(...))\<close> is a value of \<open>error\<close>, and the
  transaction of an edit is a session with its own pending copy of the store.
\<close>

subsection \<open>Values\<close>

type_synonym oid = nat

text \<open>The enum of \<^verbatim>\<open>appointmentSchema.estado\<close>.\<close>

datatype estado = pendiente | confirmado | cancelado | completado

definition estado_of :: "string \<Rightarrow> estado option" where
  "estado_of s =
     (if s = ''pendiente'' then Some pendiente
      else if s = ''confirmado'' then Some confirmado
      else if s = ''cancelado'' then Some cancelado
      else if s = ''completado'' then Some completado
      else None)"

text \<open>
  A JavaScript \<^verbatim>\<open>Date\<close>: an instant in milliseconds, or the Invalid Date (time value NaN).
  Instants are counted on the server's local clock, so that \<^verbatim>\<open>setHours(0, 0, 0, 0)\<close>
  rounds down to a multiple of a day.
\<close>

datatype jsdate = InvalidDate | Instant int

definition msPerDay :: int where
  "msPerDay = 86400000"

text \<open>\<^verbatim>\<open>d = new Date(x); d.setHours(0, 0, 0, 0)\<close> and \<^verbatim>\<open>d.setHours(23, 59, 59, 999)\<close>.\<close>

fun startOfDay :: "jsdate \<Rightarrow> jsdate" where
  "startOfDay InvalidDate = InvalidDate"
| "startOfDay (Instant t) = Instant (t - t mod msPerDay)"

fun endOfDay :: "jsdate \<Rightarrow> jsdate" where
  "endOfDay InvalidDate = InvalidDate"
| "endOfDay (Instant t) = Instant (t - t mod msPerDay + (msPerDay - 1))"

text \<open>
  The values a strict comparison \<^verbatim>\<open>!==\<close> of the controller meets: it is true whenever
  the two operands differ in type.
\<close>

datatype jsval = JBool bool | JStr string

fun strict_neq :: "jsval \<Rightarrow> jsval \<Rightarrow> bool" where
  "strict_neq (JBool a) (JBool b) = (a \<noteq> b)"
| "strict_neq (JStr a) (JStr b) = (a \<noteq> b)"
| "strict_neq _ _ = True"

subsection \<open>Documents and the store\<close>

text \<open>
  The fields the scheduling code reads or writes. \<open>p_turnos\<close> and \<open>d_turnos\<close> are the arrays
  \<^verbatim>\<open>turnos\<close> of the stored documents, the targets of the controller's \<^verbatim>\<open>$pull\<close> and
  \<^verbatim>\<open>$push\<close>. \<open>d_activo\<close> is a Boolean, as \<^verbatim>\<open>doctorSchema\<close> types it.
\<close>

record paciente_doc =
  p_id :: oid
  p_dni :: string
  p_turnos :: "oid list"

record doctor_doc =
  d_id :: oid
  d_especialidad :: string
  d_activo :: bool
  d_turnos :: "oid list"

record appointment_doc =
  a_id :: oid
  a_paciente :: oid
  a_doctor :: oid
  a_fecha :: int
  a_hora :: string
  a_estado :: estado

record store =
  pacientes :: "paciente_doc list"
  doctores :: "doctor_doc list"
  appointments :: "appointment_doc list"

text \<open>The paths the schemas declare (timestamps apart). Neither declares \<^verbatim>\<open>turnos\<close>.\<close>

definition patientSchema :: "string list" where
  "patientSchema = [''nombre'', ''apellido'', ''dni'', ''coberturaMedica.nombre'']"

definition doctorSchema :: "string list" where
  "doctorSchema =
     [''nombre'', ''apellido'', ''especialidad'', ''matricula'', ''telefono'', ''email'',
      ''horarioAtencion'', ''activo'', ''maxTurnosDiarios'', ''observaciones'']"

definition Paciente_findById :: "store \<Rightarrow> oid \<Rightarrow> paciente_doc option" where
  "Paciente_findById st i = find (\<lambda>p. p_id p = i) (pacientes st)"

definition Doctor_findById :: "store \<Rightarrow> oid \<Rightarrow> doctor_doc option" where
  "Doctor_findById st i = find (\<lambda>d. d_id d = i) (doctores st)"

definition Appointment_findById :: "store \<Rightarrow> oid \<Rightarrow> appointment_doc option" where
  "Appointment_findById st i = find (\<lambda>a. a_id a = i) (appointments st)"

text \<open>
  Casting a query or a document value to the schema type Date: an Invalid Date does not
  cast, and the query or the save is rejected with a CastError (\<open>None\<close>).
\<close>

fun castDate :: "jsdate \<Rightarrow> int option" where
  "castDate InvalidDate = None"
| "castDate (Instant t) = Some t"

text \<open>
  \<^verbatim>\<open>Appointment.countDocuments({doctor, fecha: {$gte: startOfDay, $lte: endOfDay},
  estado: 'confirmado'})\<close> of the create path.
\<close>

definition countConfirmados :: "store \<Rightarrow> oid \<Rightarrow> jsdate \<Rightarrow> jsdate \<Rightarrow> nat option" where
  "countConfirmados st doc lo hi =
     (case castDate lo of None \<Rightarrow> None
      | Some l \<Rightarrow>
     (case castDate hi of None \<Rightarrow> None
      | Some h \<Rightarrow>
        Some (length (filter (\<lambda>a. a_doctor a = doc \<and> l \<le> a_fecha a \<and> a_fecha a \<le> h \<and>
                                  a_estado a = confirmado) (appointments st)))))"

text \<open>
  \<^verbatim>\<open>Appointment.findOne({doctor: idDoctor, fecha: nuevaFecha, _id: {$ne: turno._id}})\<close>
  of the edit path: the outer \<open>None\<close> is the CastError, the inner one is \<^verbatim>\<open>null\<close>.
\<close>

definition findOneOtro :: "store \<Rightarrow> oid \<Rightarrow> jsdate \<Rightarrow> oid \<Rightarrow> appointment_doc option option" where
  "findOneOtro st doc f i =
     (case castDate f of None \<Rightarrow> None
      | Some t \<Rightarrow> Some (find (\<lambda>a. a_doctor a = doc \<and> a_fecha a = t \<and> a_id a \<noteq> i) (appointments st)))"

text \<open>
  \<^verbatim>\<open>Appointment.countDocuments({doctor: idDoctor, fecha: {$gte: inicioDelDia,
  $lte: finDelDia}, _id: {$ne: turno._id}})\<close> of the edit path.
\<close>

definition countDelDia :: "store \<Rightarrow> oid \<Rightarrow> jsdate \<Rightarrow> jsdate \<Rightarrow> oid \<Rightarrow> nat option" where
  "countDelDia st doc lo hi i =
     (case castDate lo of None \<Rightarrow> None
      | Some l \<Rightarrow>
     (case castDate hi of None \<Rightarrow> None
      | Some h \<Rightarrow>
        Some (length (filter (\<lambda>a. a_doctor a = doc \<and> l \<le> a_fecha a \<and> a_fecha a \<le> h \<and>
                                  a_id a \<noteq> i) (appointments st)))))"

subsection \<open>Updates under the schema's strict mode\<close>

text \<open>
  An update operator on one path. Both schemas are declared without options, so the strict
  mode is on: when the update is cast, an operator on a path the schema does not declare is
  removed from it, and the rest (here nothing) is sent to the store.
\<close>

datatype update = Pull string oid | Push string oid

fun update_path :: "update \<Rightarrow> string" where
  "update_path (Pull p v) = p"
| "update_path (Push p v) = p"

definition castUpdate :: "string list \<Rightarrow> update \<Rightarrow> update option" where
  "castUpdate schema u = (if update_path u \<in> set schema then Some u else None)"

fun applyUpdate :: "update \<Rightarrow> oid list \<Rightarrow> oid list" where
  "applyUpdate (Pull p v) xs = (if p = ''turnos'' then removeAll v xs else xs)"
| "applyUpdate (Push p v) xs = (if p = ''turnos'' then xs @ [v] else xs)"

fun updateFirst :: "('a \<Rightarrow> bool) \<Rightarrow> ('a \<Rightarrow> 'a) \<Rightarrow> 'a list \<Rightarrow> 'a list" where
  "updateFirst P f [] = []"
| "updateFirst P f (x # xs) = (if P x then f x # xs else x # updateFirst P f xs)"

definition Paciente_updateOne :: "string list \<Rightarrow> oid \<Rightarrow> update \<Rightarrow> store \<Rightarrow> store" where
  "Paciente_updateOne schema i u st =
     (case castUpdate schema u of None \<Rightarrow> st
      | Some u' \<Rightarrow>
          st\<lparr>pacientes :=
               updateFirst (\<lambda>p. p_id p = i) (\<lambda>p. p\<lparr>p_turnos := applyUpdate u' (p_turnos p)\<rparr>)
                 (pacientes st)\<rparr>)"

definition Doctor_updateOne :: "string list \<Rightarrow> oid \<Rightarrow> update \<Rightarrow> store \<Rightarrow> store" where
  "Doctor_updateOne schema i u st =
     (case castUpdate schema u of None \<Rightarrow> st
      | Some u' \<Rightarrow>
          st\<lparr>doctores :=
               updateFirst (\<lambda>d. d_id d = i) (\<lambda>d. d\<lparr>d_turnos := applyUpdate u' (d_turnos d)\<rparr>)
                 (doctores st)\<rparr>)"

subsection \<open>Sessions\<close>

text \<open>
  \<^verbatim>\<open>mongoose.startSession()\<close> and \<^verbatim>\<open>startTransaction()\<close>: operations given the session
  write to \<open>pending\<close>; the reads of the controller pass no session and see \<open>base\<close>.
\<close>

record sesion =
  base :: store
  pending :: store

definition startTransaction :: "store \<Rightarrow> sesion" where
  "startTransaction st = \<lparr>base = st, pending = st\<rparr>"

definition abortTransaction :: "sesion \<Rightarrow> store" where
  "abortTransaction s = base s"

definition commitTransaction :: "sesion \<Rightarrow> store" where
  "commitTransaction s = pending s"

definition inSession :: "(store \<Rightarrow> store) \<Rightarrow> sesion \<Rightarrow> sesion" where
  "inSession w s = s\<lparr>pending := w (pending s)\<rparr>"

subsection \<open>Requests and errors\<close>

text \<open>
  A JSON body: \<open>None\<close> is an absent key. \<open>otros\<close> lists the keys of the body other than
  the five the controllers destructure.
\<close>

record body =
  paciente :: "oid option"
  doctor :: "oid option"
  fecha :: "string option"
  hora :: "string option"
  estado :: "string option"
  otros :: "string list"

definition Object_keys :: "body \<Rightarrow> string list" where
  "Object_keys b =
     (case paciente b of None \<Rightarrow> [] | Some v \<Rightarrow> [''paciente'']) @
     (case doctor b of None \<Rightarrow> [] | Some v \<Rightarrow> [''doctor'']) @
     (case fecha b of None \<Rightarrow> [] | Some v \<Rightarrow> [''fecha'']) @
     (case hora b of None \<Rightarrow> [] | Some v \<Rightarrow> [''hora'']) @
     (case estado b of None \<Rightarrow> [] | Some v \<Rightarrow> [''estado'']) @
     otros b"

text \<open>A string in a condition is truthy unless it is empty; \<^verbatim>\<open>undefined\<close> is falsy.\<close>

fun truthy :: "string option \<Rightarrow> bool" where
  "truthy None = False"
| "truthy (Some s) = (s \<noteq> [])"

text \<open>A value inside a template literal: \<^verbatim>\<open>`${fecha}T${hora}`\<close>.\<close>

fun template :: "string option \<Rightarrow> string" where
  "template None = ''undefined''"
| "template (Some s) = s"

text \<open>
  Each \<^verbatim>\<open>next(new HttpError(message, code))\<close> of the two controllers, named after its
  message. \<open>SinRespuesta\<close> is the TypeError raised outside every \<^verbatim>\<open>try\<close>: the handler's
  promise is rejected and no response is sent.
\<close>

datatype error =
    DatosInvalidos
  | PacienteNoEncontrado
  | DoctorNoEncontrado
  | ErrorVerificarDisponibilidad
  | OchoTurnosConfirmados
  | NoSePudoCrear
  | ActualizacionesInvalidas
  | TurnoNoEncontrado
  | TurnoEnEsaFechaYHora
  | DiezTurnosEnEseDia
  | DoctorNoEncontradoOInactivo
  | NoSePudoEditar
  | SinRespuesta

fun code :: "error \<Rightarrow> nat option" where
  "code DatosInvalidos = Some 422"
| "code PacienteNoEncontrado = Some 404"
| "code DoctorNoEncontrado = Some 404"
| "code ErrorVerificarDisponibilidad = Some 500"
| "code OchoTurnosConfirmados = Some 400"
| "code NoSePudoCrear = Some 500"
| "code ActualizacionesInvalidas = Some 400"
| "code TurnoNoEncontrado = Some 404"
| "code TurnoEnEsaFechaYHora = Some 400"
| "code DiezTurnosEnEseDia = Some 422"
| "code DoctorNoEncontradoOInactivo = Some 400"
| "code NoSePudoEditar = Some 500"
| "code SinRespuesta = None"

subsection \<open>The validator chain of the create route\<close>

definition inRange :: "char \<Rightarrow> char \<Rightarrow> char \<Rightarrow> bool" where
  "inRange lo hi c \<longleftrightarrow> (of_char lo :: nat) \<le> of_char c \<and> (of_char c :: nat) \<le> of_char hi"

text \<open>\<^verbatim>\<open>/^([0-1]?[0-9]|2[0-3]):[0-5][0-9]$/\<close>\<close>

definition horaMatches :: "string \<Rightarrow> bool" where
  "horaMatches s =
     (case s of
        [a, b, c, d, e] \<Rightarrow>
          ((inRange CHR ''0'' CHR ''1'' a \<and> inRange CHR ''0'' CHR ''9'' b) \<or>
           (a = CHR ''2'' \<and> inRange CHR ''0'' CHR ''3'' b)) \<and>
          c = CHR '':'' \<and> inRange CHR ''0'' CHR ''5'' d \<and> inRange CHR ''0'' CHR ''9'' e
      | [b, c, d, e] \<Rightarrow>
          inRange CHR ''0'' CHR ''9'' b \<and>
          c = CHR '':'' \<and> inRange CHR ''0'' CHR ''5'' d \<and> inRange CHR ''0'' CHR ''9'' e
      | _ \<Rightarrow> False)"

text \<open>
  \<^verbatim>\<open>turnoValidator\<close>: true when no rule of the chain reports an error, which is what
  \<^verbatim>\<open>validationResult(req).isEmpty()\<close> reads. \<open>D\<close> is the runtime's \<^verbatim>\<open>Date\<close> constructor
  on a string and \<open>ahora\<close> the instant of the call.
\<close>

definition turnoValidator :: "(string \<Rightarrow> jsdate) \<Rightarrow> int \<Rightarrow> body \<Rightarrow> store \<Rightarrow> bool" where
  "turnoValidator D ahora b st \<longleftrightarrow>
     (case paciente b of None \<Rightarrow> False | Some p \<Rightarrow> Paciente_findById st p \<noteq> None) \<and>
     (case doctor b of None \<Rightarrow> False | Some d \<Rightarrow> Doctor_findById st d \<noteq> None) \<and>
     truthy (fecha b) \<and> truthy (hora b) \<and>
     (case D (template (fecha b) @ ''T'' @ template (hora b)) of
        InvalidDate \<Rightarrow> False
      | Instant t \<Rightarrow> ahora < t) \<and>
     (case hora b of None \<Rightarrow> False | Some h \<Rightarrow> horaMatches h) \<and>
     (case estado b of None \<Rightarrow> True | Some e \<Rightarrow> estado_of e \<noteq> None)"

subsection \<open>createAppointment\<close>

definition newId :: "store \<Rightarrow> oid" where
  "newId st = Suc (foldr max (map a_id (appointments st)) 0)"

text \<open>
  \<^verbatim>\<open>new Appointment({...}).save()\<close>: the document is validated against the schema (a Date
  that casts, a non-empty \<^verbatim>\<open>hora\<close>, an \<^verbatim>\<open>estado\<close> of the enum) and inserted under a new id.
\<close>

definition Appointment_create ::
  "oid \<Rightarrow> oid \<Rightarrow> jsdate \<Rightarrow> string option \<Rightarrow> string \<Rightarrow> store \<Rightarrow> (appointment_doc \<times> store) option" where
  "Appointment_create p d f h e st =
     (case castDate f of None \<Rightarrow> None
      | Some t \<Rightarrow>
     (if \<not> truthy h then None
      else
     (case estado_of e of None \<Rightarrow> None
      | Some es \<Rightarrow>
         (let nuevoTurno = \<lparr>a_id = newId st, a_paciente = p, a_doctor = d, a_fecha = t,
                            a_hora = template h, a_estado = es\<rparr>
          in Some (nuevoTurno, st\<lparr>appointments := appointments st @ [nuevoTurno]\<rparr>)))))"

text \<open>
  The controller (lines 465 to 543): the validation result, the two lookups, the count of
  the day and the insert. The count is asked for the \<^verbatim>\<open>doctor\<close> of the body, which is the
  id of the document just found. A missing \<^verbatim>\<open>estado\<close> takes the default of the
  destructuring, \<^verbatim>\<open>'confirmado'\<close>.
\<close>

definition createAppointment ::
  "(string \<Rightarrow> jsdate) \<Rightarrow> int \<Rightarrow> body \<Rightarrow> store \<Rightarrow> (error + appointment_doc) \<times> store" where
  "createAppointment D ahora b st =
     (if \<not> turnoValidator D ahora b st then (Inl DatosInvalidos, st)
      else
       (let estado' = (case estado b of None \<Rightarrow> ''confirmado'' | Some e \<Rightarrow> e) in
        case Option.bind (paciente b) (Paciente_findById st) of
          None \<Rightarrow> (Inl PacienteNoEncontrado, st)
        | Some patientObj \<Rightarrow>
       (case Option.bind (doctor b) (Doctor_findById st) of
          None \<Rightarrow> (Inl DoctorNoEncontrado, st)
        | Some doctorObj \<Rightarrow>
         (let inputDate = D (template (fecha b) @ ''T'' @ template (hora b)) in
          case countConfirmados st (d_id doctorObj) (startOfDay inputDate) (endOfDay inputDate) of
            None \<Rightarrow> (Inl ErrorVerificarDisponibilidad, st)
          | Some dailyCount \<Rightarrow>
              if 8 \<le> dailyCount then (Inl OchoTurnosConfirmados, st)
              else
               (case Appointment_create (p_id patientObj) (d_id doctorObj) inputDate (hora b)
                       estado' st of
                  None \<Rightarrow> (Inl NoSePudoCrear, st)
                | Some (nuevoTurno, st') \<Rightarrow> (Inr nuevoTurno, st'))))))"

subsection \<open>editAppointment\<close>

text \<open>
  The hydrated appointment: a reference path holds the populated document, \<^verbatim>\<open>null\<close>
  when the referenced document is missing, or the id assigned to it later.
  \<open>t_especialidad\<close> is the property the controller sets on the document; the schema has no
  such path, so a save does not write it.
\<close>

datatype 'd ref = Null | Doc 'd | Ref oid

record turno_doc =
  t_id :: oid
  t_paciente :: "paciente_doc ref"
  t_doctor :: "doctor_doc ref"
  t_fecha :: jsdate
  t_hora :: string
  t_estado :: "estado option"
  t_especialidad :: "string option"

text \<open>\<^verbatim>\<open>x._id\<close>: a TypeError (\<open>None\<close>) on \<^verbatim>\<open>null\<close>.\<close>

fun ref_id :: "('d \<Rightarrow> oid) \<Rightarrow> 'd ref \<Rightarrow> oid option" where
  "ref_id g Null = None"
| "ref_id g (Doc d) = Some (g d)"
| "ref_id g (Ref i) = Some i"

definition populate :: "store \<Rightarrow> appointment_doc \<Rightarrow> turno_doc" where
  "populate st a =
     \<lparr>t_id = a_id a,
      t_paciente = (case Paciente_findById st (a_paciente a) of None \<Rightarrow> Null | Some p \<Rightarrow> Doc p),
      t_doctor = (case Doctor_findById st (a_doctor a) of None \<Rightarrow> Null | Some d \<Rightarrow> Doc d),
      t_fecha = Instant (a_fecha a),
      t_hora = a_hora a,
      t_estado = Some (a_estado a),
      t_especialidad = None\<rparr>"

text \<open>\<^verbatim>\<open>Appointment.findById(id).populate('paciente').populate('doctor')\<close>\<close>

definition findById_populate :: "store \<Rightarrow> oid \<Rightarrow> turno_doc option" where
  "findById_populate st i = map_option (populate st) (Appointment_findById st i)"

text \<open>
  A reference path is written by a save only when the controller has assigned an id to it;
  a populated path, \<^verbatim>\<open>null\<close> included, is unmodified and stays as stored.
\<close>

fun ref_write :: "'d ref \<Rightarrow> oid \<Rightarrow> oid" where
  "ref_write (Ref i) stored = i"
| "ref_write Null stored = stored"
| "ref_write (Doc d) stored = stored"

text \<open>
  \<^verbatim>\<open>turno.save()\<close>: validation of the assigned values first (the Date casts, \<^verbatim>\<open>estado\<close> is
  of the enum), then the write of the document's modified paths.
\<close>

definition turno_save :: "turno_doc \<Rightarrow> store \<Rightarrow> store option" where
  "turno_save t st =
     (case castDate (t_fecha t) of None \<Rightarrow> None
      | Some f \<Rightarrow>
     (case t_estado t of None \<Rightarrow> None
      | Some e \<Rightarrow>
         Some (st\<lparr>appointments :=
                    updateFirst (\<lambda>a. a_id a = t_id t)
                      (\<lambda>a. a\<lparr>a_paciente := ref_write (t_paciente t) (a_paciente a),
                              a_doctor := ref_write (t_doctor t) (a_doctor a),
                              a_fecha := f, a_hora := t_hora t, a_estado := e\<rparr>)
                      (appointments st)\<rparr>)))"

definition camposPermitidos :: "string list" where
  "camposPermitidos = [''paciente'', ''doctor'', ''fecha'', ''estado'']"

text \<open>\<^verbatim>\<open>Object.keys(req.body).filter(campo => camposPermitidos.includes(campo))\<close>\<close>

definition actualizaciones :: "body \<Rightarrow> string list" where
  "actualizaciones b = filter (\<lambda>campo. campo \<in> set camposPermitidos) (Object_keys b)"

text \<open>\<^verbatim>\<open>doctor || turno.doctor._id\<close>\<close>

definition idDoctor :: "body \<Rightarrow> turno_doc \<Rightarrow> oid option" where
  "idDoctor b turno = (case doctor b of Some d \<Rightarrow> Some d | None \<Rightarrow> ref_id d_id (t_doctor turno))"

text \<open>\<^verbatim>\<open>fecha ? new Date(`${fecha}T${hora}`) : turno.fecha\<close>\<close>

definition nuevaFecha :: "(string \<Rightarrow> jsdate) \<Rightarrow> body \<Rightarrow> turno_doc \<Rightarrow> jsdate" where
  "nuevaFecha D b turno =
     (if truthy (fecha b) then D (template (fecha b) @ ''T'' @ template (hora b))
      else t_fecha turno)"

text \<open>
  The change of patient (lines 632 to 661). A failure carries the store left by the abort;
  a TypeError is caught by the handler's \<^verbatim>\<open>catch\<close>, which aborts too.
\<close>

definition cambioDePaciente ::
  "string list \<Rightarrow> body \<Rightarrow> turno_doc \<Rightarrow> sesion \<Rightarrow> (error \<times> store) + (turno_doc \<times> sesion)" where
  "cambioDePaciente pS b turno s =
     (case paciente b of
        None \<Rightarrow> Inr (turno, s)
      | Some p \<Rightarrow>
         (case ref_id p_id (t_paciente turno) of
            None \<Rightarrow> Inl (NoSePudoEditar, abortTransaction s)
          | Some actual \<Rightarrow>
              if actual = p then Inr (turno, s)
              else
               (case Paciente_findById (base s) p of
                  None \<Rightarrow> Inl (PacienteNoEncontrado, abortTransaction s)
                | Some nuevoPaciente \<Rightarrow>
                   (let s1 = inSession (Paciente_updateOne pS actual (Pull ''turnos'' (t_id turno))) s;
                        s2 = inSession (Paciente_updateOne pS (p_id nuevoPaciente)
                                          (Push ''turnos'' (t_id turno))) s1
                    in Inr (turno\<lparr>t_paciente := Ref (p_id nuevoPaciente)\<rparr>, s2)))))"

text \<open>The change of doctor (lines 663 to 693).\<close>

definition cambioDeDoctor ::
  "string list \<Rightarrow> body \<Rightarrow> turno_doc \<Rightarrow> sesion \<Rightarrow> (error \<times> store) + (turno_doc \<times> sesion)" where
  "cambioDeDoctor dS b turno s =
     (case doctor b of
        None \<Rightarrow> Inr (turno, s)
      | Some d \<Rightarrow>
         (case ref_id d_id (t_doctor turno) of
            None \<Rightarrow> Inl (NoSePudoEditar, abortTransaction s)
          | Some actual \<Rightarrow>
              if actual = d then Inr (turno, s)
              else
               (case Doctor_findById (base s) d of
                  None \<Rightarrow> Inl (DoctorNoEncontradoOInactivo, abortTransaction s)
                | Some nuevoDoctor \<Rightarrow>
                    if strict_neq (JBool (d_activo nuevoDoctor)) (JStr ''activo'')
                    then Inl (DoctorNoEncontradoOInactivo, abortTransaction s)
                    else
                     (let s1 = inSession (Doctor_updateOne dS actual (Pull ''turnos'' (t_id turno))) s;
                          s2 = inSession (Doctor_updateOne dS (d_id nuevoDoctor)
                                            (Push ''turnos'' (t_id turno))) s1
                      in Inr (turno\<lparr>t_doctor := Ref (d_id nuevoDoctor),
                                    t_especialidad := Some (d_especialidad nuevoDoctor)\<rparr>, s2)))))"

text \<open>The simple fields (lines 695 to 705).\<close>

definition camposSimples :: "body \<Rightarrow> jsdate \<Rightarrow> turno_doc \<Rightarrow> turno_doc" where
  "camposSimples b nf turno =
     (let turno1 = (if ''fecha'' \<in> set (actualizaciones b) then turno\<lparr>t_fecha := nf\<rparr> else turno)
      in if ''estado'' \<in> set (actualizaciones b)
         then (case estado b of None \<Rightarrow> turno1 | Some e \<Rightarrow> turno1\<lparr>t_estado := estado_of e\<rparr>)
         else turno1)"

text \<open>The body of the \<^verbatim>\<open>try\<close> (lines 593 to 719), in the session \<open>s\<close>.\<close>

definition enTransaccion ::
  "string list \<Rightarrow> string list \<Rightarrow> body \<Rightarrow> turno_doc \<Rightarrow> jsdate \<Rightarrow> oid \<Rightarrow> sesion \<Rightarrow>
   (error + turno_doc) \<times> store" where
  "enTransaccion pS dS b turno nf idDoc s =
     (case findOneOtro (base s) idDoc nf (t_id turno) of
        None \<Rightarrow> (Inl NoSePudoEditar, abortTransaction s)
      | Some (Some turnoExistente) \<Rightarrow> (Inl TurnoEnEsaFechaYHora, abortTransaction s)
      | Some None \<Rightarrow>
         (case countDelDia (base s) idDoc (startOfDay nf) (endOfDay nf) (t_id turno) of
            None \<Rightarrow> (Inl NoSePudoEditar, abortTransaction s)
          | Some cantidadDelDia \<Rightarrow>
              if 10 \<le> cantidadDelDia then (Inl DiezTurnosEnEseDia, abortTransaction s)
              else
               (case cambioDePaciente pS b turno s of
                  Inl r \<Rightarrow> (Inl (fst r), snd r)
                | Inr (turno1, s1) \<Rightarrow>
                   (case cambioDeDoctor dS b turno1 s1 of
                      Inl r \<Rightarrow> (Inl (fst r), snd r)
                    | Inr (turno2, s2) \<Rightarrow>
                       (let turno3 = camposSimples b nf turno2 in
                        case turno_save turno3 (pending s2) of
                          None \<Rightarrow> (Inl NoSePudoEditar, abortTransaction s2)
                        | Some st' \<Rightarrow> (Inr turno3, commitTransaction (s2\<lparr>pending := st'\<rparr>)))))))"

text \<open>
  The controller over the two models it requires, given by the paths of their schemas;
  \<open>i\<close> is \<^verbatim>\<open>req.params.id\<close>.
\<close>

definition editAppointment_on ::
  "(string \<Rightarrow> jsdate) \<Rightarrow> string list \<Rightarrow> string list \<Rightarrow> oid \<Rightarrow> body \<Rightarrow> store \<Rightarrow>
   (error + turno_doc) \<times> store" where
  "editAppointment_on D pS dS i b st =
     (if \<not> list_all (\<lambda>campo. campo \<in> set camposPermitidos) (actualizaciones b)
      then (Inl ActualizacionesInvalidas, st)
      else
       (case findById_populate st i of
          None \<Rightarrow> (Inl TurnoNoEncontrado, st)
        | Some turno \<Rightarrow>
           (case idDoctor b turno of
              None \<Rightarrow> (Inl SinRespuesta, st)
            | Some idDoc \<Rightarrow>
                enTransaccion pS dS b turno (nuevaFecha D b turno) idDoc (startTransaction st))))"

text \<open>The controller with the models of the repository.\<close>

definition editAppointment ::
  "(string \<Rightarrow> jsdate) \<Rightarrow> oid \<Rightarrow> body \<Rightarrow> store \<Rightarrow> (error + turno_doc) \<times> store" where
  "editAppointment D = editAppointment_on D patientSchema doctorSchema"

subsection \<open>A Date constructor and sample data for concrete runs\<close>

text \<open>
  The controllers are parametric in the runtime's \<^verbatim>\<open>new Date(string)\<close>. For runs on concrete
  requests, \<open>Date_iso R\<close> is a constructor that reads the date-time form \<^verbatim>\<open>YYYY-MM-DDTHH:mm\<close>
  as V8 does, as local time (day numbers up to 31 roll over into the next month), reads a
  date \<^verbatim>\<open>YYYY-MM-DD\<close> followed by \<^verbatim>\<open>Tundefined\<close> as the Invalid Date, and answers as \<open>R\<close> on
  every other string: \<open>R\<close> stands for the runtime on the forms that are not modelled
  (seconds, zones, expanded years, the legacy forms). The runs stated with a free \<open>R\<close> hold
  for every such runtime.
\<close>

definition digitVal :: "char \<Rightarrow> nat option" where
  "digitVal c = (if inRange CHR ''0'' CHR ''9'' c then Some (of_char c - 48) else None)"

fun numberOf :: "nat \<Rightarrow> string \<Rightarrow> nat option" where
  "numberOf acc [] = Some acc"
| "numberOf acc (c # cs) =
     (case digitVal c of None \<Rightarrow> None | Some d \<Rightarrow> numberOf (10 * acc + d) cs)"

definition daysFromCivil :: "int \<Rightarrow> int \<Rightarrow> int \<Rightarrow> int" where
  "daysFromCivil y m d =
     (let y' = (if m \<le> 2 then y - 1 else y);
          era = y' div 400;
          yoe = y' - era * 400;
          doy = (153 * (if 2 < m then m - 3 else m + 9) + 2) div 5 + d - 1;
          doe = yoe * 365 + yoe div 4 - yoe div 100 + doy
      in era * 146097 + doe - 719468)"

definition isoLocal :: "string \<Rightarrow> jsdate option" where
  "isoLocal s =
     (case s of
        [y1, y2, y3, y4, s1, m1, m2, s2, d1, d2, s3, h1, h2, s4, n1, n2] \<Rightarrow>
          (if s1 = CHR ''-'' \<and> s2 = CHR ''-'' \<and> s3 = CHR ''T'' \<and> s4 = CHR '':'' then
             (case numberOf 0 [y1, y2, y3, y4] of None \<Rightarrow> None | Some y \<Rightarrow>
             (case numberOf 0 [m1, m2] of None \<Rightarrow> None | Some m \<Rightarrow>
             (case numberOf 0 [d1, d2] of None \<Rightarrow> None | Some d \<Rightarrow>
             (case numberOf 0 [h1, h2] of None \<Rightarrow> None | Some h \<Rightarrow>
             (case numberOf 0 [n1, n2] of None \<Rightarrow> None | Some n \<Rightarrow>
                Some
                 (if 1 \<le> m \<and> m \<le> 12 \<and> 1 \<le> d \<and> d \<le> 31 \<and> (h \<le> 23 \<or> h = 24 \<and> n = 0) \<and> n \<le> 59
                  then Instant (daysFromCivil (int y) (int m) (int d) * msPerDay
                                + int h * 3600000 + int n * 60000)
                  else InvalidDate))))))
           else None)
      | _ \<Rightarrow> None)"

text \<open>The strings \<^verbatim>\<open>YYYY-MM-DDTundefined\<close>: a date combined with a missing time.\<close>

definition fechaSinHora :: "string \<Rightarrow> bool" where
  "fechaSinHora s =
     (case s of
        y1 # y2 # y3 # y4 # s1 # m1 # m2 # s2 # d1 # d2 # rest \<Rightarrow>
          s1 = CHR ''-'' \<and> s2 = CHR ''-'' \<and> rest = ''Tundefined'' \<and>
          list_all (inRange CHR ''0'' CHR ''9'') [y1, y2, y3, y4, m1, m2, d1, d2]
      | _ \<Rightarrow> False)"

definition Date_iso :: "(string \<Rightarrow> jsdate) \<Rightarrow> string \<Rightarrow> jsdate" where
  "Date_iso R s =
     (case isoLocal s of
        Some d \<Rightarrow> d
      | None \<Rightarrow> if fechaSinHora s then InvalidDate else R s)"

definition paciente0 :: "oid \<Rightarrow> paciente_doc" where
  "paciente0 i = \<lparr>p_id = i, p_dni = [], p_turnos = []\<rparr>"

definition doctor0 :: "oid \<Rightarrow> doctor_doc" where
  "doctor0 i = \<lparr>d_id = i, d_especialidad = ''clinica'', d_activo = True, d_turnos = []\<rparr>"

definition turno0 :: "oid \<Rightarrow> oid \<Rightarrow> oid \<Rightarrow> int \<Rightarrow> string \<Rightarrow> estado \<Rightarrow> appointment_doc" where
  "turno0 i p d t h e =
     \<lparr>a_id = i, a_paciente = p, a_doctor = d, a_fecha = t, a_hora = h, a_estado = e\<rparr>"

definition body0 :: body where
  "body0 = \<lparr>paciente = None, doctor = None, fecha = None, hora = None, estado = None, otros = []\<rparr>"

text \<open>
  Two patients, two doctors (both with \<^verbatim>\<open>activo: true\<close>). The instant 1743501600000 is
  2025-04-01 10:00, and 1743588000000 is 2025-04-02 10:00.
\<close>

definition agendaVacia :: store where
  "agendaVacia = \<lparr>pacientes = [paciente0 1, paciente0 2], doctores = [doctor0 1, doctor0 2],
                  appointments = []\<rparr>"

definition agenda1 :: store where
  "agenda1 = agendaVacia\<lparr>appointments := [turno0 1 1 1 1743501600000 ''10:00'' confirmado]\<rparr>"

text \<open>The same, with the arrays \<^verbatim>\<open>turnos\<close> of patient 1 and doctor 1 holding the appointment.\<close>

definition agendaRef :: store where
  "agendaRef = agenda1\<lparr>pacientes := [(paciente0 1)\<lparr>p_turnos := [1]\<rparr>, paciente0 2],
                       doctores := [(doctor0 1)\<lparr>d_turnos := [1]\<rparr>, doctor0 2]\<rparr>"

text \<open>Doctor 1 has a cancelled appointment at 10:00 and a confirmed one at 11:00.\<close>

definition agendaCancelado :: store where
  "agendaCancelado =
     agendaVacia\<lparr>appointments := [turno0 1 1 1 1743501600000 ''10:00'' cancelado,
                                    turno0 2 2 1 1743505200000 ''11:00'' confirmado]\<rparr>"

text \<open>
  Doctor 1 has ten confirmed appointments on 2025-04-01, every half hour from 08:00 to
  12:30, and an eleventh on the next day.
\<close>

definition agendaLlena :: store where
  "agendaLlena =
     agendaVacia\<lparr>appointments :=
       [turno0 1 1 1 1743494400000 ''08:00'' confirmado,
        turno0 2 1 1 1743496200000 ''08:30'' confirmado,
        turno0 3 1 1 1743498000000 ''09:00'' confirmado,
        turno0 4 1 1 1743499800000 ''09:30'' confirmado,
        turno0 5 1 1 1743501600000 ''10:00'' confirmado,
        turno0 6 1 1 1743503400000 ''10:30'' confirmado,
        turno0 7 1 1 1743505200000 ''11:00'' confirmado,
        turno0 8 1 1 1743507000000 ''11:30'' confirmado,
        turno0 9 1 1 1743508800000 ''12:00'' confirmado,
        turno0 10 1 1 1743510600000 ''12:30'' confirmado,
        turno0 11 2 1 1743588000000 ''10:00'' confirmado]\<rparr>"

section \<open>Properties\<close>

subsection \<open>Lookups and the steps of an edit\<close>

lemma Doctor_findById_id: "Doctor_findById st d = Some x \<Longrightarrow> d_id x = d"
  by (auto simp: Doctor_findById_def find_Some_iff)

lemma Paciente_findById_id: "Paciente_findById st p = Some x \<Longrightarrow> p_id x = p"
  by (auto simp: Paciente_findById_def find_Some_iff)

lemma findById_populate_id: "findById_populate st i = Some turno \<Longrightarrow> t_id turno = i"
  by (auto simp: findById_populate_def Appointment_findById_def populate_def find_Some_iff)

text \<open>The list \<open>actualizaciones\<close> is a filter by the allowed names, so the test on it holds.\<close>

lemma list_all_actualizaciones:
  "list_all (\<lambda>campo. campo \<in> set camposPermitidos) (actualizaciones b)"
  by (simp add: actualizaciones_def list_all_iff)

lemma cambioDePaciente_aborts:
  "cambioDePaciente pS b turno s = Inl r \<Longrightarrow> snd r = base s"
  by (auto simp: cambioDePaciente_def abortTransaction_def Let_def split: option.splits if_splits)

lemma cambioDePaciente_base:
  "cambioDePaciente pS b turno s = Inr (turno', s') \<Longrightarrow> base s' = base s"
  by (auto simp: cambioDePaciente_def inSession_def Let_def split: option.splits if_splits)

lemma cambioDePaciente_errors:
  "cambioDePaciente pS b turno s = Inl r \<Longrightarrow>
   fst r = NoSePudoEditar \<or> fst r = PacienteNoEncontrado"
  by (auto simp: cambioDePaciente_def Let_def split: option.splits if_splits)

lemma cambioDeDoctor_aborts:
  "cambioDeDoctor dS b turno s = Inl r \<Longrightarrow> snd r = base s"
  by (auto simp: cambioDeDoctor_def abortTransaction_def Let_def split: option.splits if_splits)

lemma cambioDeDoctor_base:
  "cambioDeDoctor dS b turno s = Inr (turno', s') \<Longrightarrow> base s' = base s"
  by (auto simp: cambioDeDoctor_def inSession_def Let_def split: option.splits if_splits)

lemma cambioDeDoctor_errors:
  "cambioDeDoctor dS b turno s = Inl r \<Longrightarrow>
   fst r = NoSePudoEditar \<or> fst r = DoctorNoEncontradoOInactivo"
  by (auto simp: cambioDeDoctor_def Let_def split: option.splits if_splits)

text \<open>
  A Boolean is never strictly equal to the string \<^verbatim>\<open>'activo'\<close>: the step that changes the
  doctor either fails or finds nothing to change.
\<close>

lemma cambioDeDoctor_never_changes:
  "cambioDeDoctor dS b turno s = Inr (turno', s') \<Longrightarrow> turno' = turno \<and> s' = s"
  by (auto simp: cambioDeDoctor_def Let_def split: option.splits if_splits)

lemma enTransaccion_aborts:
  assumes "fst (enTransaccion pS dS b turno nf idDoc s) = Inl e"
  shows "snd (enTransaccion pS dS b turno nf idDoc s) = base s"
proof (cases "cambioDePaciente pS b turno s")
  case (Inl r)
  then have "snd r = base s" by (rule cambioDePaciente_aborts)
  with Inl show ?thesis
    by (simp add: enTransaccion_def abortTransaction_def split: option.splits)
next
  case (Inr ts)
  obtain turno1 s1 where ts: "ts = (turno1, s1)" by (cases ts)
  with Inr have b1: "base s1 = base s" by (auto dest: cambioDePaciente_base)
  show ?thesis
  proof (cases "cambioDeDoctor dS b turno1 s1")
    case (Inl r)
    then have "snd r = base s1" by (rule cambioDeDoctor_aborts)
    with Inl Inr ts b1 show ?thesis
      by (simp add: enTransaccion_def abortTransaction_def split: option.splits)
  next
    case r: (Inr ts2)
    obtain turno2 s2 where ts2: "ts2 = (turno2, s2)" by (cases ts2)
    with r have "base s2 = base s1" by (auto dest: cambioDeDoctor_base)
    with b1 r Inr ts ts2 assms show ?thesis
      by (auto simp: enTransaccion_def abortTransaction_def Let_def
          split: option.splits if_splits)
  qed
qed

subsection \<open>Failure leaves the store as it was\<close>

text \<open>
  Claim C4. Whenever \<^verbatim>\<open>editAppointment\<close> fails, at whichever step, the store after the call
  is the store before it: the appointment and every array \<^verbatim>\<open>turnos\<close> are untouched. This
  holds for any pair of schemas, so also for one that declares \<^verbatim>\<open>turnos\<close>, where the change
  of patient has written to the session before the change of doctor fails.
\<close>

theorem edit_failure_writes_nothing:
  assumes "fst (editAppointment_on D pS dS i b st) = Inl e"
  shows "snd (editAppointment_on D pS dS i b st) = st"
proof (cases "findById_populate st i")
  case None
  then show ?thesis by (simp add: editAppointment_on_def)
next
  case (Some turno)
  show ?thesis
  proof (cases "idDoctor b turno")
    case None
    with Some show ?thesis by (simp add: editAppointment_on_def)
  next
    case (Some idDoc)
    let ?r = "enTransaccion pS dS b turno (nuevaFecha D b turno) idDoc (startTransaction st)"
    from \<open>findById_populate st i = Some turno\<close> Some
    have eq: "editAppointment_on D pS dS i b st = ?r"
      by (simp add: editAppointment_on_def list_all_actualizaciones)
    with assms have "fst ?r = Inl e" by simp
    then have "snd ?r = base (startTransaction st)" by (rule enTransaccion_aborts)
    with eq show ?thesis by (simp add: startTransaction_def)
  qed
qed

text \<open>
  On \<open>agendaRef\<close>, under schemas that declare \<^verbatim>\<open>turnos\<close>, the request to move appointment 1
  to patient 2 and doctor 2: the change of patient leaves the arrays \<open>[]\<close> and \<open>[1]\<close> pending
  in the session, the change of doctor fails, and the store is \<open>agendaRef\<close> again.
\<close>

theorem edit_failure_writes_nothing_witness:
  "fst (editAppointment_on (Date_iso (\<lambda>s. InvalidDate)) (''turnos'' # patientSchema) (''turnos'' # doctorSchema) 1
          (body0\<lparr>paciente := Some 2, doctor := Some 2\<rparr>) agendaRef)
     = Inl DoctorNoEncontradoOInactivo \<and>
   (case cambioDePaciente (''turnos'' # patientSchema) (body0\<lparr>paciente := Some 2, doctor := Some 2\<rparr>)
           (populate agendaRef (turno0 1 1 1 1743501600000 ''10:00'' confirmado))
           (startTransaction agendaRef) of
      Inl r \<Rightarrow> False
    | Inr ts \<Rightarrow> map p_turnos (pacientes (pending (snd ts))) = [[], [1]]) \<and>
   snd (editAppointment_on (Date_iso (\<lambda>s. InvalidDate)) (''turnos'' # patientSchema) (''turnos'' # doctorSchema) 1
          (body0\<lparr>paciente := Some 2, doctor := Some 2\<rparr>) agendaRef)
     = agendaRef"
proof -
  have failed:
    "fst (editAppointment_on (Date_iso (\<lambda>s. InvalidDate)) (''turnos'' # patientSchema) (''turnos'' # doctorSchema) 1
            (body0\<lparr>paciente := Some 2, doctor := Some 2\<rparr>) agendaRef)
       = Inl DoctorNoEncontradoOInactivo"
    by code_simp
  have pending:
    "(case cambioDePaciente (''turnos'' # patientSchema) (body0\<lparr>paciente := Some 2, doctor := Some 2\<rparr>)
           (populate agendaRef (turno0 1 1 1 1743501600000 ''10:00'' confirmado))
           (startTransaction agendaRef) of
      Inl r \<Rightarrow> False
    | Inr ts \<Rightarrow> map p_turnos (pacientes (pending (snd ts))) = [[], [1]])"
    by code_simp
  from failed pending edit_failure_writes_nothing [OF failed] show ?thesis by simp
qed

subsection \<open>The change of doctor\<close>

text \<open>
  Claim C1. The claim asks that an edit naming another doctor, present in the store and
  active, succeeds and moves the appointment to that doctor. Here doctor 2 is in the store
  with \<^verbatim>\<open>activo: true\<close>, the slot is free and the day is empty for doctor 2, and the edit
  of appointment 1 ends with the error of an absent or inactive doctor, the store unchanged:
  the controller compares the Boolean with the string \<^verbatim>\<open>'activo'\<close>.
\<close>

theorem doctor_reassignment_rejects_active_doctor:
  "Doctor_findById agenda1 2 = Some (doctor0 2) \<and> d_activo (doctor0 2) \<and>
   findOneOtro agenda1 2 (Instant 1743501600000) 1 = Some None \<and>
   countDelDia agenda1 2 (startOfDay (Instant 1743501600000)) (endOfDay (Instant 1743501600000)) 1
     = Some 0 \<and>
   editAppointment (Date_iso R) 1 (body0\<lparr>doctor := Some 2\<rparr>) agenda1
     = (Inl DoctorNoEncontradoOInactivo, agenda1)"
  by code_simp

subsection \<open>Slots\<close>

text \<open>
  Claim C2. The claim asks that no two appointments that are not cancelled share doctor,
  date and time after any run of successful creates and edits. Two successive creates of
  the same request on \<open>agendaVacia\<close> both succeed: the store then holds appointments 1 and 2,
  both \<open>confirmado\<close>, for doctor 1 at 2025-04-01 10:00. The create path counts the day's
  confirmed appointments and never looks at the slot.
\<close>

theorem two_creates_share_a_slot:
  "createAppointment (Date_iso R) 0
     (body0\<lparr>paciente := Some 1, doctor := Some 1, fecha := Some ''2025-04-01'',
            hora := Some ''10:00''\<rparr>) agendaVacia
     = (Inr (turno0 1 1 1 1743501600000 ''10:00'' confirmado),
        agendaVacia\<lparr>appointments := [turno0 1 1 1 1743501600000 ''10:00'' confirmado]\<rparr>) \<and>
   createAppointment (Date_iso R) 0
     (body0\<lparr>paciente := Some 1, doctor := Some 1, fecha := Some ''2025-04-01'',
            hora := Some ''10:00''\<rparr>)
     (agendaVacia\<lparr>appointments := [turno0 1 1 1 1743501600000 ''10:00'' confirmado]\<rparr>)
     = (Inr (turno0 2 1 1 1743501600000 ''10:00'' confirmado),
        agendaVacia\<lparr>appointments := [turno0 1 1 1 1743501600000 ''10:00'' confirmado,
                                       turno0 2 1 1 1743501600000 ''10:00'' confirmado]\<rparr>)"
  by code_simp

text \<open>
  Claim C6. The claim asks that the edit's slot check ignores cancelled appointments. On
  \<open>agendaCancelado\<close> the only other appointment of doctor 1 at 2025-04-01 10:00 is cancelled,
  and moving appointment 2 there is refused with the slot error: the query of the edit
  path has no condition on \<^verbatim>\<open>estado\<close>.
\<close>

theorem cancelled_collision_blocks_edit:
  "filter (\<lambda>a. a_doctor a = 1 \<and> a_fecha a = 1743501600000 \<and> a_id a \<noteq> 2 \<and>
               a_estado a \<noteq> cancelado) (appointments agendaCancelado) = [] \<and>
   editAppointment (Date_iso R) 2 (body0\<lparr>fecha := Some ''2025-04-01'', hora := Some ''10:00''\<rparr>)
     agendaCancelado
     = (Inl TurnoEnEsaFechaYHora, agendaCancelado)"
  by code_simp

subsection \<open>The patch\<close>

text \<open>
  Claim C3. The claim asks that a patch with a field name outside the allowed ones fails as
  an invalid update and writes nothing. The patch \<^verbatim>\<open>{estado: 'cancelado', foo: ...}\<close> is
  accepted and the appointment is stored as cancelled: the test runs over the names already
  filtered by the allowed list.
\<close>

theorem unknown_field_is_not_rejected:
  "editAppointment (Date_iso R) 1 (body0\<lparr>estado := Some ''cancelado'', otros := [''foo'']\<rparr>) agenda1
     = (Inr ((populate agenda1 (turno0 1 1 1 1743501600000 ''10:00'' confirmado))
               \<lparr>t_estado := Some cancelado\<rparr>),
        agenda1\<lparr>appointments := [turno0 1 1 1 1743501600000 ''10:00'' cancelado]\<rparr>)"
  by code_simp

text \<open>
  Claim C9. The claim asks that an edit with date and time stores the combined instant and
  the patch's time of day. The edit of appointment 1 to 2025-04-02 11:30 stores the instant
  1743593400000 of that date and time, and leaves \<^verbatim>\<open>hora\<close> at \<^verbatim>\<open>'10:00'\<close>: the controller
  never assigns \<^verbatim>\<open>turno.hora\<close>.
\<close>

theorem edit_keeps_old_hora:
  "Date_iso R ''2025-04-02T11:30'' = Instant 1743593400000 \<and>
   editAppointment (Date_iso R) 1 (body0\<lparr>fecha := Some ''2025-04-02'', hora := Some ''11:30''\<rparr>) agenda1
     = (Inr ((populate agenda1 (turno0 1 1 1 1743501600000 ''10:00'' confirmado))
               \<lparr>t_fecha := Instant 1743593400000\<rparr>),
        agenda1\<lparr>appointments := [turno0 1 1 1 1743593400000 ''10:00'' confirmado]\<rparr>)"
  by code_simp

subsection \<open>The arrays of back-references\<close>

text \<open>
  Claim C7. The claim asks that after a successful change of patient the new patient's
  array holds the appointment's id exactly once. The edit of appointment 1 to patient 2
  succeeds and stores the new reference, and the arrays of both patients are as before,
  empty: \<^verbatim>\<open>patientSchema\<close> declares no path \<^verbatim>\<open>turnos\<close>, so the \<^verbatim>\<open>$pull\<close> and the \<^verbatim>\<open>$push\<close>
  are dropped when the update is cast.
\<close>

theorem patient_reassignment_leaves_lists:
  "editAppointment (Date_iso R) 1 (body0\<lparr>paciente := Some 2\<rparr>) agenda1
     = (Inr ((populate agenda1 (turno0 1 1 1 1743501600000 ''10:00'' confirmado))
               \<lparr>t_paciente := Ref 2\<rparr>),
        agenda1\<lparr>appointments := [turno0 1 2 1 1743501600000 ''10:00'' confirmado]\<rparr>) \<and>
   map p_turnos (pacientes (snd (editAppointment (Date_iso R) 1 (body0\<lparr>paciente := Some 2\<rparr>) agenda1)))
     = [[], []]"
  by code_simp

subsection \<open>The state of a new appointment\<close>

text \<open>
  Claim C8. When the request gives no \<^verbatim>\<open>estado\<close> and \<^verbatim>\<open>createAppointment\<close> succeeds, the
  appointment it returns, which is the one appended to the collection, is \<open>confirmado\<close>.
\<close>

theorem create_defaults_to_confirmado:
  assumes "estado b = None" and "createAppointment D ahora b st = (Inr a, st')"
  shows "a_estado a = confirmado \<and> appointments st' = appointments st @ [a]"
  using assms
  by (auto simp: createAppointment_def Appointment_create_def estado_of_def Let_def
      split: if_splits option.splits prod.splits)

theorem create_defaults_to_confirmado_witness:
  "estado (body0\<lparr>paciente := Some 1, doctor := Some 2, fecha := Some ''2025-04-01'',
                 hora := Some ''10:00''\<rparr>) = None \<and>
   createAppointment (Date_iso (\<lambda>s. InvalidDate)) 0
     (body0\<lparr>paciente := Some 1, doctor := Some 2, fecha := Some ''2025-04-01'',
            hora := Some ''10:00''\<rparr>) agenda1
     = (Inr (turno0 2 1 2 1743501600000 ''10:00'' confirmado),
        agenda1\<lparr>appointments := appointments agenda1 @
                   [turno0 2 1 2 1743501600000 ''10:00'' confirmado]\<rparr>) \<and>
   a_estado (turno0 2 1 2 1743501600000 ''10:00'' confirmado) = confirmado \<and>
   appointments (agenda1\<lparr>appointments := appointments agenda1 @
                   [turno0 2 1 2 1743501600000 ''10:00'' confirmado]\<rparr>)
     = appointments agenda1 @ [turno0 2 1 2 1743501600000 ''10:00'' confirmado]"
proof -
  have none:
    "estado (body0\<lparr>paciente := Some 1, doctor := Some 2, fecha := Some ''2025-04-01'',
                   hora := Some ''10:00''\<rparr>) = None"
    by (simp add: body0_def)
  have run:
    "createAppointment (Date_iso (\<lambda>s. InvalidDate)) 0
       (body0\<lparr>paciente := Some 1, doctor := Some 2, fecha := Some ''2025-04-01'',
              hora := Some ''10:00''\<rparr>) agenda1
       = (Inr (turno0 2 1 2 1743501600000 ''10:00'' confirmado),
          agenda1\<lparr>appointments := appointments agenda1 @
                     [turno0 2 1 2 1743501600000 ''10:00'' confirmado]\<rparr>)"
    by code_simp
  from none run create_defaults_to_confirmado [OF none run] show ?thesis by simp
qed

subsection \<open>The daily cap\<close>

lemma create_cap_threshold:
  assumes v: "turnoValidator D ahora b st"
    and d: "doctor b = Some d"
    and t: "D (template (fecha b) @ ''T'' @ template (hora b)) = Instant t"
  shows "(fst (createAppointment D ahora b st) = Inl OchoTurnosConfirmados) =
         (8 \<le> length (filter (\<lambda>a. a_doctor a = d \<and> t - t mod 86400000 \<le> a_fecha a \<and>
                 a_fecha a \<le> t - t mod 86400000 + 86399999 \<and> a_estado a = confirmado)
               (appointments st)))"
proof -
  from v d obtain dobj where dobj: "Doctor_findById st d = Some dobj"
    by (auto simp: turnoValidator_def)
  then have did: "d_id dobj = d" by (rule Doctor_findById_id)
  from v obtain p pobj where p: "paciente b = Some p" "Paciente_findById st p = Some pobj"
    by (auto simp: turnoValidator_def split: option.splits)
  show ?thesis
    using v d t dobj did p
    by (auto simp: createAppointment_def countConfirmados_def msPerDay_def Let_def
        split: option.splits prod.splits)
qed

lemma edit_cap_threshold:
  assumes f: "findById_populate st i = Some turno"
    and d: "idDoctor b turno = Some d"
    and t: "nuevaFecha D b turno = Instant t"
    and free: "find (\<lambda>a. a_doctor a = d \<and> a_fecha a = t \<and> a_id a \<noteq> i) (appointments st) = None"
  shows "(fst (editAppointment_on D pS dS i b st) = Inl DiezTurnosEnEseDia) =
         (10 \<le> length (filter (\<lambda>a. a_doctor a = d \<and> t - t mod 86400000 \<le> a_fecha a \<and>
                 a_fecha a \<le> t - t mod 86400000 + 86399999 \<and> a_id a \<noteq> i)
               (appointments st)))"
proof -
  let ?n = "length (filter (\<lambda>a. a_doctor a = d \<and> t - t mod 86400000 \<le> a_fecha a \<and>
                 a_fecha a \<le> t - t mod 86400000 + 86399999 \<and> a_id a \<noteq> i) (appointments st))"
  let ?s = "startTransaction st"
  from f have id: "t_id turno = i" by (rule findById_populate_id)
  have eq: "editAppointment_on D pS dS i b st = enTransaccion pS dS b turno (Instant t) d ?s"
    using f d t by (simp add: editAppointment_on_def list_all_actualizaciones)
  have slot: "findOneOtro (base ?s) d (Instant t) (t_id turno) = Some None"
    using free id by (simp add: findOneOtro_def startTransaction_def)
  have cnt: "countDelDia (base ?s) d (startOfDay (Instant t)) (endOfDay (Instant t)) (t_id turno)
             = Some ?n"
    using id by (simp add: countDelDia_def startTransaction_def msPerDay_def)
  show ?thesis
  proof (cases "10 \<le> ?n")
    case True
    with eq slot cnt show ?thesis by (simp add: enTransaccion_def)
  next
    case False
    have "fst (enTransaccion pS dS b turno (Instant t) d ?s) \<noteq> Inl DiezTurnosEnEseDia"
      using slot cnt False
      by (auto simp: enTransaccion_def Let_def
          dest!: cambioDePaciente_errors cambioDeDoctor_errors
          split: sum.splits option.splits prod.splits)
    with eq False show ?thesis by simp
  qed
qed

text \<open>
  Claim C5, as stated, fails where an earlier check answers first. On \<open>agendaLlena\<close> doctor 1
  holds ten appointments on 2025-04-01 besides appointment 11, and the edit that moves
  appointment 11 to 10:00 of that day fails with the slot error, not with the cap error.
\<close>

theorem daily_cap_preempted_by_slot_conflict:
  "10 \<le> length (filter (\<lambda>a. a_doctor a = 1 \<and> 1743465600000 \<le> a_fecha a \<and>
                   a_fecha a \<le> 1743551999999 \<and> a_id a \<noteq> 11) (appointments agendaLlena)) \<and>
   fst (editAppointment (Date_iso (\<lambda>s. InvalidDate)) 11 (body0\<lparr>fecha := Some ''2025-04-01'', hora := Some ''10:00''\<rparr>)
          agendaLlena) = Inl TurnoEnEsaFechaYHora"
  by code_simp

text \<open>
  Claim C5, amended. For a create request that passes the validator chain (so patient and
  doctor resolve and the date is valid), \<^verbatim>\<open>createAppointment\<close> fails with the cap error
  exactly when the doctor holds at least 8 confirmed appointments in the day window of the
  requested date, from 00:00:00.000 to 23:59:59.999. For an edit of an existing
  appointment whose effective slot is held by no other appointment, \<^verbatim>\<open>editAppointment\<close>
  fails with the cap error exactly when the effective doctor holds at least 10 appointments
  of any state, the edited one apart, in the day window of the effective date.
\<close>

theorem daily_cap_after_earlier_checks:
  "(turnoValidator D ahora b st \<and> doctor b = Some d \<and>
    D (template (fecha b) @ ''T'' @ template (hora b)) = Instant t \<longrightarrow>
      (fst (createAppointment D ahora b st) = Inl OchoTurnosConfirmados) =
      (8 \<le> length (filter (\<lambda>a. a_doctor a = d \<and> t - t mod 86400000 \<le> a_fecha a \<and>
              a_fecha a \<le> t - t mod 86400000 + 86399999 \<and> a_estado a = confirmado)
            (appointments st)))) \<and>
   (findById_populate st' i = Some turno \<and> idDoctor b' turno = Some d' \<and>
    nuevaFecha D b' turno = Instant t' \<and>
    find (\<lambda>a. a_doctor a = d' \<and> a_fecha a = t' \<and> a_id a \<noteq> i) (appointments st') = None \<longrightarrow>
      (fst (editAppointment D i b' st') = Inl DiezTurnosEnEseDia) =
      (10 \<le> length (filter (\<lambda>a. a_doctor a = d' \<and> t' - t' mod 86400000 \<le> a_fecha a \<and>
              a_fecha a \<le> t' - t' mod 86400000 + 86399999 \<and> a_id a \<noteq> i)
            (appointments st'))))"
  unfolding editAppointment_def
  using create_cap_threshold [of D ahora b st d t]
    edit_cap_threshold [of st' i turno b' d' D t' patientSchema doctorSchema]
  by blast

text \<open>
  On \<open>agendaLlena\<close>: a create for doctor 1 at 13:00 of the full day, and the edit that moves
  appointment 11 to that free slot, both fail with their cap error.
\<close>

theorem daily_cap_after_earlier_checks_witness:
  "turnoValidator (Date_iso (\<lambda>s. InvalidDate)) 0
     (body0\<lparr>paciente := Some 1, doctor := Some 1, fecha := Some ''2025-04-01'',
            hora := Some ''13:00''\<rparr>) agendaLlena \<and>
   fst (createAppointment (Date_iso (\<lambda>s. InvalidDate)) 0
     (body0\<lparr>paciente := Some 1, doctor := Some 1, fecha := Some ''2025-04-01'',
            hora := Some ''13:00''\<rparr>) agendaLlena) = Inl OchoTurnosConfirmados \<and>
   find (\<lambda>a. a_doctor a = 1 \<and> a_fecha a = 1743512400000 \<and> a_id a \<noteq> 11)
     (appointments agendaLlena) = None \<and>
   fst (editAppointment (Date_iso (\<lambda>s. InvalidDate)) 11
     (body0\<lparr>fecha := Some ''2025-04-01'', hora := Some ''13:00''\<rparr>) agendaLlena)
     = Inl DiezTurnosEnEseDia"
proof -
  let ?bc = "body0\<lparr>paciente := Some 1, doctor := Some 1, fecha := Some ''2025-04-01'',
                   hora := Some ''13:00''\<rparr>"
  let ?be = "body0\<lparr>fecha := Some ''2025-04-01'', hora := Some ''13:00''\<rparr>"
  let ?turno = "populate agendaLlena (turno0 11 2 1 1743588000000 ''10:00'' confirmado)"
  have v: "turnoValidator (Date_iso (\<lambda>s. InvalidDate)) 0 ?bc agendaLlena" by code_simp
  have d: "doctor ?bc = Some 1" by (simp add: body0_def)
  have t: "(Date_iso (\<lambda>s. InvalidDate)) (template (fecha ?bc) @ ''T'' @ template (hora ?bc)) = Instant 1743512400000"
    by code_simp
  have n8: "8 \<le> length (filter (\<lambda>a. a_doctor a = 1 \<and>
              1743512400000 - 1743512400000 mod 86400000 \<le> a_fecha a \<and>
              a_fecha a \<le> 1743512400000 - 1743512400000 mod 86400000 + 86399999 \<and>
              a_estado a = confirmado) (appointments agendaLlena))"
    by code_simp
  have f: "findById_populate agendaLlena 11 = Some ?turno" by code_simp
  have d': "idDoctor ?be ?turno = Some 1" by code_simp
  have t': "nuevaFecha (Date_iso (\<lambda>s. InvalidDate)) ?be ?turno = Instant 1743512400000" by code_simp
  have free: "find (\<lambda>a. a_doctor a = 1 \<and> a_fecha a = 1743512400000 \<and> a_id a \<noteq> 11)
                (appointments agendaLlena) = None"
    by code_simp
  have n10: "10 \<le> length (filter (\<lambda>a. a_doctor a = 1 \<and>
              1743512400000 - 1743512400000 mod 86400000 \<le> a_fecha a \<and>
              a_fecha a \<le> 1743512400000 - 1743512400000 mod 86400000 + 86399999 \<and>
              a_id a \<noteq> 11) (appointments agendaLlena))"
    by code_simp
  from daily_cap_after_earlier_checks
         [of "Date_iso (\<lambda>s. InvalidDate)" 0 ?bc agendaLlena 1 1743512400000 agendaLlena 11 ?turno ?be 1 1743512400000]
       v d t n8 f d' t' free n10
  show ?thesis by blast
qed

section \<open>What the edit path does on every input\<close>

text \<open>
  The runs above are instances of general facts about \<^verbatim>\<open>editAppointment\<close>, collected
  here: which errors it can answer, when the slot check fires, and which stored fields a
  call can change.
\<close>

lemma find_Some_in: "find P xs = Some a \<Longrightarrow> a \<in> set xs \<and> P a"
  by (induction xs) (auto split: if_splits)

lemma editAppointment_on_unfold:
  "editAppointment_on D pS dS i b st =
     (case findById_populate st i of
        None \<Rightarrow> (Inl TurnoNoEncontrado, st)
      | Some turno \<Rightarrow>
         (case idDoctor b turno of
            None \<Rightarrow> (Inl SinRespuesta, st)
          | Some idDoc \<Rightarrow>
              enTransaccion pS dS b turno (nuevaFecha D b turno) idDoc (startTransaction st)))"
  by (simp add: editAppointment_on_def list_all_actualizaciones)

lemma enTransaccion_errors:
  assumes "fst (enTransaccion pS dS b turno nf idDoc s) = Inl e"
  shows "e \<in> {NoSePudoEditar, TurnoEnEsaFechaYHora, DiezTurnosEnEseDia, PacienteNoEncontrado,
              DoctorNoEncontradoOInactivo}"
  using assms
  by (auto simp: enTransaccion_def Let_def
      dest!: cambioDePaciente_errors cambioDeDoctor_errors
      split: sum.splits option.splits prod.splits if_splits)

text \<open>The error of an invalid update is never answered, whatever the keys of the body.\<close>

lemma edit_never_invalid_update:
  "fst (editAppointment_on D pS dS i b st) \<noteq> Inl ActualizacionesInvalidas"
proof
  assume a: "fst (editAppointment_on D pS dS i b st) = Inl ActualizacionesInvalidas"
  show False
  proof (cases "findById_populate st i")
    case None
    with a show False by (simp add: editAppointment_on_unfold)
  next
    case (Some turno)
    show False
    proof (cases "idDoctor b turno")
      case None
      with Some a show False by (simp add: editAppointment_on_unfold)
    next
      case (Some idDoc)
      with \<open>findById_populate st i = Some turno\<close> a
      have "fst (enTransaccion pS dS b turno (nuevaFecha D b turno) idDoc (startTransaction st))
            = Inl ActualizacionesInvalidas"
        by (simp add: editAppointment_on_unfold)
      from enTransaccion_errors [OF this] show False by simp
    qed
  qed
qed

text \<open>
  The slot check of an edit, for an existing appointment with a valid effective date: it
  fires exactly when another appointment of the effective doctor has that very instant,
  whatever its state.
\<close>

lemma edit_slot_conflict_iff:
  assumes f: "findById_populate st i = Some turno"
    and d: "idDoctor b turno = Some d"
    and t: "nuevaFecha D b turno = Instant t"
  shows "(fst (editAppointment_on D pS dS i b st) = Inl TurnoEnEsaFechaYHora) =
         (\<exists>a \<in> set (appointments st). a_doctor a = d \<and> a_fecha a = t \<and> a_id a \<noteq> i)"
proof -
  let ?s = "startTransaction st"
  let ?P = "\<lambda>a. a_doctor a = d \<and> a_fecha a = t \<and> a_id a \<noteq> i"
  from f have id: "t_id turno = i" by (rule findById_populate_id)
  have eq: "editAppointment_on D pS dS i b st = enTransaccion pS dS b turno (Instant t) d ?s"
    using f d t by (simp add: editAppointment_on_unfold)
  have q: "findOneOtro (base ?s) d (Instant t) (t_id turno) = Some (find ?P (appointments st))"
    using id by (simp add: findOneOtro_def startTransaction_def)
  show ?thesis
  proof (cases "find ?P (appointments st)")
    case None
    then have no: "\<not> (\<exists>a \<in> set (appointments st). ?P a)" by (simp add: find_None_iff)
    have "fst (enTransaccion pS dS b turno (Instant t) d ?s) \<noteq> Inl TurnoEnEsaFechaYHora"
      using q None
      by (auto simp: enTransaccion_def Let_def
          dest!: cambioDePaciente_errors cambioDeDoctor_errors
          split: sum.splits option.splits prod.splits if_splits)
    with eq no show ?thesis by simp
  next
    case (Some a)
    then have "\<exists>a \<in> set (appointments st). ?P a" by (blast dest: find_Some_in)
    moreover from q Some have "fst (enTransaccion pS dS b turno (Instant t) d ?s) = Inl TurnoEnEsaFechaYHora"
      by (simp add: enTransaccion_def)
    ultimately show ?thesis using eq by simp
  qed
qed

subsection \<open>Which stored fields an edit can change\<close>

lemma map_updateFirst:
  assumes "\<And>x. find P xs = Some x \<Longrightarrow> g (f x) = g x"
  shows "map g (updateFirst P f xs) = map g xs"
  using assms by (induction xs) auto

lemma find_updateFirst:
  assumes "\<And>x. P x \<Longrightarrow> P (f x)"
  shows "find P (updateFirst P f xs) = map_option f (find P xs)"
  using assms by (induction xs) auto

lemma updateFirst_others:
  assumes "a \<in> set (updateFirst P f xs)" and "\<not> P a" and "\<And>x. P x \<Longrightarrow> P (f x)"
  shows "a \<in> set xs"
  using assms by (induction xs) (auto split: if_splits)

text \<open>With the schemas of the repository the two updates of an array are no writes.\<close>

lemma Paciente_updateOne_repo:
  "Paciente_updateOne patientSchema i (Pull ''turnos'' v) st = st"
  "Paciente_updateOne patientSchema i (Push ''turnos'' v) st = st"
  by (simp_all add: Paciente_updateOne_def castUpdate_def patientSchema_def)

lemma cambioDePaciente_repo:
  "cambioDePaciente patientSchema b turno s = Inr (turno', s') \<Longrightarrow> s' = s"
  by (auto simp: cambioDePaciente_def inSession_def Paciente_updateOne_repo Let_def
      split: option.splits if_splits)

lemma cambioDePaciente_fields:
  "cambioDePaciente pS b turno s = Inr (turno', s') \<Longrightarrow>
     t_id turno' = t_id turno \<and> t_hora turno' = t_hora turno \<and> t_doctor turno' = t_doctor turno \<and>
     t_fecha turno' = t_fecha turno \<and> t_estado turno' = t_estado turno \<and>
     appointments (pending s') = appointments (pending s)"
  by (auto simp: cambioDePaciente_def inSession_def Paciente_updateOne_def Let_def
      split: option.splits if_splits)

lemma camposSimples_fields:
  "t_id (camposSimples b nf turno) = t_id turno \<and>
   t_hora (camposSimples b nf turno) = t_hora turno \<and>
   t_doctor (camposSimples b nf turno) = t_doctor turno \<and>
   t_paciente (camposSimples b nf turno) = t_paciente turno"
  by (simp add: camposSimples_def Let_def split: option.splits)

lemma enTransaccion_Inr:
  assumes "enTransaccion pS dS b turno nf idDoc s = (Inr t, st')"
  obtains turno1 s1 where
    "findOneOtro (base s) idDoc nf (t_id turno) = Some None"
    "cambioDePaciente pS b turno s = Inr (turno1, s1)"
    "cambioDeDoctor dS b turno1 s1 = Inr (turno1, s1)"
    "t = camposSimples b nf turno1"
    "turno_save t (pending s1) = Some st'"
proof -
  from assms obtain turno1 s1 turno2 s2 where
    q: "findOneOtro (base s) idDoc nf (t_id turno) = Some None"
    and p: "cambioDePaciente pS b turno s = Inr (turno1, s1)"
    and d: "cambioDeDoctor dS b turno1 s1 = Inr (turno2, s2)"
    and t: "t = camposSimples b nf turno2"
    and w: "turno_save t (pending s2) = Some st'"
    by (auto simp: enTransaccion_def commitTransaction_def Let_def
        split: sum.splits option.splits prod.splits if_splits)
  from d have "turno2 = turno1 \<and> s2 = s1" by (rule cambioDeDoctor_never_changes)
  with q p d t w that show thesis by simp
qed

lemma editAppointment_on_Inr:
  assumes "editAppointment_on D pS dS i b st = (Inr t, st')"
  obtains a0 idDoc where
    "find (\<lambda>a. a_id a = i) (appointments st) = Some a0"
    "idDoctor b (populate st a0) = Some idDoc"
    "enTransaccion pS dS b (populate st a0) (nuevaFecha D b (populate st a0)) idDoc
       (startTransaction st) = (Inr t, st')"
  using assms
  by (auto simp: editAppointment_on_unfold findById_populate_def Appointment_findById_def
      split: option.splits)

lemma editAppointment_on_Inl:
  assumes "fst (editAppointment_on D pS dS i b st) = Inl e"
  shows "snd (editAppointment_on D pS dS i b st) = st"
  using assms enTransaccion_aborts [of pS dS b _ _ _ "startTransaction st" e]
  by (auto simp: editAppointment_on_unfold startTransaction_def split: option.splits)

lemma turno_save_Some:
  assumes "turno_save t st = Some st'"
  obtains f e where
    "castDate (t_fecha t) = Some f" "t_estado t = Some e"
    "st' = st\<lparr>appointments :=
             updateFirst (\<lambda>a. a_id a = t_id t)
               (\<lambda>a. a\<lparr>a_paciente := ref_write (t_paciente t) (a_paciente a),
                       a_doctor := ref_write (t_doctor t) (a_doctor a),
                       a_fecha := f, a_hora := t_hora t, a_estado := e\<rparr>)
               (appointments st)\<rparr>"
  using assms by (auto simp: turno_save_def split: option.splits)

text \<open>A populated path is not written: the stored reference stays.\<close>

lemma ref_write_populate_doctor:
  "ref_write (t_doctor (populate st a0)) x = x"
  by (simp add: populate_def split: option.splits)

text \<open>
  No call of \<^verbatim>\<open>editAppointment\<close>, successful or not, changes the \<^verbatim>\<open>hora\<close> or the doctor of
  any stored appointment; with the schemas of the repository it changes no patient and no
  doctor document either.
\<close>

lemma edit_success_keeps_hora_and_doctor:
  assumes run: "editAppointment_on D pS dS i b st = (Inr t, st')"
  shows "map a_hora (appointments st') = map a_hora (appointments st) \<and>
         map a_doctor (appointments st') = map a_doctor (appointments st)"
proof -
  from run obtain a0 idDoc where
    a0: "find (\<lambda>a. a_id a = i) (appointments st) = Some a0"
    and tx: "enTransaccion pS dS b (populate st a0) (nuevaFecha D b (populate st a0)) idDoc
               (startTransaction st) = (Inr t, st')"
    by (rule editAppointment_on_Inr)
  from tx obtain turno1 s1 where
    p: "cambioDePaciente pS b (populate st a0) (startTransaction st) = Inr (turno1, s1)"
    and t: "t = camposSimples b (nuevaFecha D b (populate st a0)) turno1"
    and w: "turno_save t (pending s1) = Some st'"
    by (rule enTransaccion_Inr)
  from p have f1: "t_id turno1 = a_id a0 \<and> t_hora turno1 = a_hora a0 \<and>
                   t_doctor turno1 = t_doctor (populate st a0) \<and>
                   appointments (pending s1) = appointments st"
    by (auto dest!: cambioDePaciente_fields simp: populate_def startTransaction_def)
  from a0 have id0: "a_id a0 = i" by (blast dest: find_Some_in)
  from t f1 id0 have ft: "t_id t = i \<and> t_hora t = a_hora a0 \<and> t_doctor t = t_doctor (populate st a0)"
    by (simp add: camposSimples_fields)
  from w obtain f e where
    st': "st' = (pending s1)\<lparr>appointments :=
                updateFirst (\<lambda>a. a_id a = t_id t)
                  (\<lambda>a. a\<lparr>a_paciente := ref_write (t_paciente t) (a_paciente a),
                          a_doctor := ref_write (t_doctor t) (a_doctor a),
                          a_fecha := f, a_hora := t_hora t, a_estado := e\<rparr>)
                  (appointments (pending s1))\<rparr>"
    by (rule turno_save_Some)
  have "map a_hora (appointments st') = map a_hora (appointments st)"
    unfolding st' using f1 ft a0 by (auto intro!: map_updateFirst)
  moreover have "map a_doctor (appointments st') = map a_doctor (appointments st)"
    unfolding st' using f1 ft by (auto intro!: map_updateFirst simp: ref_write_populate_doctor)
  ultimately show ?thesis by simp
qed

lemma edit_keeps_hora_and_doctor:
  "map a_hora (appointments (snd (editAppointment_on D pS dS i b st))) = map a_hora (appointments st) \<and>
   map a_doctor (appointments (snd (editAppointment_on D pS dS i b st)))
     = map a_doctor (appointments st)"
proof (cases "fst (editAppointment_on D pS dS i b st)")
  case (Inl e)
  then show ?thesis by (simp add: editAppointment_on_Inl)
next
  case (Inr t)
  then have "editAppointment_on D pS dS i b st = (Inr t, snd (editAppointment_on D pS dS i b st))"
    by (simp add: prod_eq_iff)
  then show ?thesis by (rule edit_success_keeps_hora_and_doctor)
qed

lemma edit_success_never_writes_turnos:
  assumes run: "editAppointment_on D patientSchema doctorSchema i b st = (Inr t, st')"
  shows "pacientes st' = pacientes st \<and> doctores st' = doctores st"
proof -
  from run obtain a0 idDoc where
    tx: "enTransaccion patientSchema doctorSchema b (populate st a0)
           (nuevaFecha D b (populate st a0)) idDoc (startTransaction st) = (Inr t, st')"
    by (rule editAppointment_on_Inr)
  from tx obtain turno1 s1 where
    p: "cambioDePaciente patientSchema b (populate st a0) (startTransaction st) = Inr (turno1, s1)"
    and w: "turno_save t (pending s1) = Some st'"
    by (rule enTransaccion_Inr)
  from p have s1: "s1 = startTransaction st" by (rule cambioDePaciente_repo)
  from w obtain f e where
    "st' = (pending s1)\<lparr>appointments :=
              updateFirst (\<lambda>a. a_id a = t_id t)
                (\<lambda>a. a\<lparr>a_paciente := ref_write (t_paciente t) (a_paciente a),
                        a_doctor := ref_write (t_doctor t) (a_doctor a),
                        a_fecha := f, a_hora := t_hora t, a_estado := e\<rparr>)
                (appointments (pending s1))\<rparr>"
    by (rule turno_save_Some)
  with s1 show ?thesis by (simp add: startTransaction_def)
qed

lemma edit_never_writes_turnos:
  "pacientes (snd (editAppointment D i b st)) = pacientes st \<and>
   doctores (snd (editAppointment D i b st)) = doctores st"
proof (cases "fst (editAppointment D i b st)")
  case (Inl e)
  then show ?thesis by (simp add: editAppointment_def editAppointment_on_Inl)
next
  case (Inr t)
  then have "editAppointment_on D patientSchema doctorSchema i b st
             = (Inr t, snd (editAppointment D i b st))"
    by (simp add: prod_eq_iff editAppointment_def)
  then show ?thesis by (rule edit_success_never_writes_turnos)
qed

subsection \<open>The date and the slot after a successful edit\<close>

lemma fecha_in_actualizaciones:
  "(''fecha'' \<in> set (actualizaciones b)) = (fecha b \<noteq> None \<or> ''fecha'' \<in> set (otros b))"
  by (cases "paciente b"; cases "doctor b"; cases "fecha b"; cases "hora b"; cases "estado b")
    (auto simp: actualizaciones_def Object_keys_def camposPermitidos_def)

lemma camposSimples_fecha:
  "t_fecha (camposSimples b nf turno) = (if ''fecha'' \<in> set (actualizaciones b) then nf else t_fecha turno)"
  by (simp add: camposSimples_def Let_def split: option.splits)

lemma cambioDeDoctor_same_doctor:
  assumes "cambioDeDoctor dS b turno s = Inr r" and "doctor b = Some d"
  shows "ref_id d_id (t_doctor turno) = Some d"
  using assms by (auto simp: cambioDeDoctor_def Let_def split: option.splits if_splits)

text \<open>
  After a successful edit the response and the stored appointment carry the effective date
  of the call; so when the patch gives a date, they carry the instant the runtime reads
  from the date and the time of the patch.
\<close>

lemma edit_success_stores_nuevaFecha:
  assumes run: "editAppointment_on D pS dS i b st = (Inr t, st')"
  obtains a0 a' f where
    "find (\<lambda>a. a_id a = i) (appointments st) = Some a0"
    "nuevaFecha D b (populate st a0) = Instant f" "t_fecha t = Instant f"
    "Appointment_findById st' i = Some a'" "a_fecha a' = f" "a_doctor a' = a_doctor a0"
    "idDoctor b (populate st a0) = Some (a_doctor a0)"
    "find (\<lambda>a. a_doctor a = a_doctor a0 \<and> a_fecha a = f \<and> a_id a \<noteq> i) (appointments st) = None"
    "\<forall>a \<in> set (appointments st'). a_id a \<noteq> i \<longrightarrow> a \<in> set (appointments st)"
proof -
  from run obtain a0 idDoc where
    a0: "find (\<lambda>a. a_id a = i) (appointments st) = Some a0"
    and idDoc: "idDoctor b (populate st a0) = Some idDoc"
    and tx: "enTransaccion pS dS b (populate st a0) (nuevaFecha D b (populate st a0)) idDoc
               (startTransaction st) = (Inr t, st')"
    by (rule editAppointment_on_Inr)
  let ?turno = "populate st a0"
  let ?nf = "nuevaFecha D b ?turno"
  from tx obtain turno1 s1 where
    q: "findOneOtro (base (startTransaction st)) idDoc ?nf (t_id ?turno) = Some None"
    and p: "cambioDePaciente pS b ?turno (startTransaction st) = Inr (turno1, s1)"
    and dr: "cambioDeDoctor dS b turno1 s1 = Inr (turno1, s1)"
    and t: "t = camposSimples b ?nf turno1"
    and w: "turno_save t (pending s1) = Some st'"
    by (rule enTransaccion_Inr)
  from a0 have id0: "a_id a0 = i" by (blast dest: find_Some_in)
  from p have f1: "t_id turno1 = i" "t_doctor turno1 = t_doctor ?turno"
    "t_fecha turno1 = Instant (a_fecha a0)" "appointments (pending s1) = appointments st"
    using id0 by (auto dest!: cambioDePaciente_fields simp: populate_def startTransaction_def)
  have tf: "t_fecha t = ?nf"
  proof (cases "''fecha'' \<in> set (actualizaciones b)")
    case True
    with t show ?thesis by (simp add: camposSimples_fecha)
  next
    case False
    then have "fecha b = None" by (simp add: fecha_in_actualizaciones)
    with False t f1 show ?thesis by (simp add: camposSimples_fecha nuevaFecha_def populate_def)
  qed
  from w obtain f e where
    cf: "castDate (t_fecha t) = Some f"
    and st': "st' = (pending s1)\<lparr>appointments :=
                updateFirst (\<lambda>a. a_id a = t_id t)
                  (\<lambda>a. a\<lparr>a_paciente := ref_write (t_paciente t) (a_paciente a),
                          a_doctor := ref_write (t_doctor t) (a_doctor a),
                          a_fecha := f, a_hora := t_hora t, a_estado := e\<rparr>)
                  (appointments (pending s1))\<rparr>"
    by (rule turno_save_Some)
  from cf have inst: "t_fecha t = Instant f" by (cases "t_fecha t") simp_all
  from t f1 have tt: "t_id t = i" "t_doctor t = t_doctor ?turno" by (simp_all add: camposSimples_fields)
  have populated: "\<And>x. ref_id d_id (t_doctor ?turno) = Some x \<Longrightarrow> x = a_doctor a0"
    by (auto simp: populate_def split: option.splits dest: Doctor_findById_id)
  have idd: "idDoc = a_doctor a0"
  proof (cases "doctor b")
    case None
    with idDoc populated show ?thesis by (simp add: idDoctor_def)
  next
    case (Some d)
    with dr have "ref_id d_id (t_doctor turno1) = Some d" by (rule cambioDeDoctor_same_doctor)
    with Some idDoc f1 populated show ?thesis by (simp add: idDoctor_def)
  qed
  let ?F = "\<lambda>a. a\<lparr>a_paciente := ref_write (t_paciente t) (a_paciente a),
                  a_doctor := ref_write (t_doctor t) (a_doctor a),
                  a_fecha := f, a_hora := t_hora t, a_estado := e\<rparr>"
  have apps: "appointments st' = updateFirst (\<lambda>a. a_id a = i) ?F (appointments st)"
    unfolding st' using f1 tt by simp
  have found: "Appointment_findById st' i = Some (?F a0)"
    unfolding Appointment_findById_def apps using a0 by (simp add: find_updateFirst)
  from tf inst have nf: "?nf = Instant f" by simp
  have free: "find (\<lambda>a. a_doctor a = a_doctor a0 \<and> a_fecha a = f \<and> a_id a \<noteq> i) (appointments st) = None"
    using q idd id0 unfolding nf
    by (simp add: findOneOtro_def startTransaction_def populate_def)
  have others: "\<forall>a \<in> set (appointments st'). a_id a \<noteq> i \<longrightarrow> a \<in> set (appointments st)"
    unfolding apps by (auto elim!: updateFirst_others)
  from idDoc idd have idDoc': "idDoctor b (populate st a0) = Some (a_doctor a0)" by simp
  from tt have fd: "a_doctor (?F a0) = a_doctor a0" by (simp add: ref_write_populate_doctor)
  have ff: "a_fecha (?F a0) = f" by simp
  from a0 nf inst found ff fd idDoc' free others show thesis by (rule that)
qed

lemma edit_success_stores_fecha:
  assumes run: "editAppointment_on D pS dS i b st = (Inr t, st')" and tr: "truthy (fecha b)"
  shows "t_fecha t = D (template (fecha b) @ ''T'' @ template (hora b)) \<and>
         map_option (\<lambda>a. Instant (a_fecha a)) (Appointment_findById st' i)
           = Some (D (template (fecha b) @ ''T'' @ template (hora b)))"
  using run
proof (rule edit_success_stores_nuevaFecha)
  fix a0 a' :: appointment_doc and f
  assume "nuevaFecha D b (populate st a0) = Instant f" "t_fecha t = Instant f"
    "Appointment_findById st' i = Some a'" "a_fecha a' = f"
  with tr show ?thesis by (simp add: nuevaFecha_def)
qed

text \<open>
  The edit path keeps the slot of the appointment it edits to itself: after a successful
  edit no other stored appointment has the doctor and the instant of the edited one.
\<close>

lemma edit_success_slot_exclusive:
  assumes run: "editAppointment_on D pS dS i b st = (Inr t, st')"
    and a': "Appointment_findById st' i = Some a'"
    and a: "a \<in> set (appointments st')" "a_id a \<noteq> i"
  shows "\<not> (a_doctor a = a_doctor a' \<and> a_fecha a = a_fecha a')"
  using run
proof (rule edit_success_stores_nuevaFecha)
  fix a0 a'' :: appointment_doc and f
  assume found: "Appointment_findById st' i = Some a''" "a_fecha a'' = f"
    "a_doctor a'' = a_doctor a0"
    and free: "find (\<lambda>a. a_doctor a = a_doctor a0 \<and> a_fecha a = f \<and> a_id a \<noteq> i)
                 (appointments st) = None"
    and others: "\<forall>a \<in> set (appointments st'). a_id a \<noteq> i \<longrightarrow> a \<in> set (appointments st)"
  from a others have "a \<in> set (appointments st)" by blast
  with free a(2) have "\<not> (a_doctor a = a_doctor a0 \<and> a_fecha a = f)"
    by (auto simp: find_None_iff)
  with found a' show ?thesis by simp
qed

subsection \<open>The arrays under a schema that declares them\<close>

lemma find_updateFirst_other:
  assumes "\<And>x. P x \<Longrightarrow> \<not> Q x" and "\<And>x. Q (f x) = Q x"
  shows "find Q (updateFirst P f xs) = find Q xs"
  using assms by (induction xs) auto

text \<open>
  Were \<^verbatim>\<open>turnos\<close> a path of the patient schema, a successful change of patient would move
  the back-reference as the comments of the controller say: the id leaves the array of the
  former patient and is appended to the array of the new one.
\<close>

lemma declared_turnos_moves_backreference:
  assumes decl: "''turnos'' \<in> set pS"
    and run: "editAppointment_on D pS dS i b st = (Inr t, st')"
    and a0: "find (\<lambda>a. a_id a = i) (appointments st) = Some a0"
    and p: "paciente b = Some p" and ne: "a_paciente a0 \<noteq> p"
    and old: "Paciente_findById st (a_paciente a0) = Some viejo"
  shows "\<exists>nuevo. Paciente_findById st p = Some nuevo \<and>
           map_option p_turnos (Paciente_findById st' (a_paciente a0))
             = Some (removeAll i (p_turnos viejo)) \<and>
           map_option p_turnos (Paciente_findById st' p) = Some (p_turnos nuevo @ [i])"
proof -
  from run obtain a1 idDoc where
    a1: "find (\<lambda>a. a_id a = i) (appointments st) = Some a1"
    and tx: "enTransaccion pS dS b (populate st a1) (nuevaFecha D b (populate st a1)) idDoc
               (startTransaction st) = (Inr t, st')"
    by (rule editAppointment_on_Inr)
  from a0 a1 have [simp]: "a1 = a0" by simp
  from a0 have id0: "a_id a0 = i" by (blast dest: find_Some_in)
  from old have vid: "p_id viejo = a_paciente a0" by (rule Paciente_findById_id)
  from tx obtain turno1 s1 where
    c: "cambioDePaciente pS b (populate st a0) (startTransaction st) = Inr (turno1, s1)"
    and w: "turno_save t (pending s1) = Some st'"
    by (rule enTransaccion_Inr) simp
  from c p ne old vid obtain nuevo where
    nuevo: "Paciente_findById st p = Some nuevo"
    and s1: "pending s1 =
               Paciente_updateOne pS (p_id nuevo) (Push ''turnos'' i)
                 (Paciente_updateOne pS (a_paciente a0) (Pull ''turnos'' i) st)"
    using id0
    by (auto simp: cambioDePaciente_def populate_def startTransaction_def inSession_def Let_def
        split: option.splits if_splits)
  from nuevo have nid: "p_id nuevo = p" by (rule Paciente_findById_id)
  let ?pull = "\<lambda>q. q\<lparr>p_turnos := removeAll i (p_turnos q)\<rparr>"
  let ?push = "\<lambda>q. q\<lparr>p_turnos := p_turnos q @ [i]\<rparr>"
  let ?ps = "updateFirst (\<lambda>q. p_id q = p) ?push
               (updateFirst (\<lambda>q. p_id q = a_paciente a0) ?pull (pacientes st))"
  from s1 decl nid have ps1: "pacientes (pending s1) = ?ps"
    by (simp add: Paciente_updateOne_def castUpdate_def)
  from w obtain f e where
    "st' = (pending s1)\<lparr>appointments :=
              updateFirst (\<lambda>a. a_id a = t_id t)
                (\<lambda>a. a\<lparr>a_paciente := ref_write (t_paciente t) (a_paciente a),
                        a_doctor := ref_write (t_doctor t) (a_doctor a),
                        a_fecha := f, a_hora := t_hora t, a_estado := e\<rparr>)
                (appointments (pending s1))\<rparr>"
    by (rule turno_save_Some)
  with ps1 have ps': "pacientes st' = ?ps" by simp
  have "find (\<lambda>q. p_id q = a_paciente a0) ?ps
        = find (\<lambda>q. p_id q = a_paciente a0)
            (updateFirst (\<lambda>q. p_id q = a_paciente a0) ?pull (pacientes st))"
    using ne by (intro find_updateFirst_other) auto
  also have "\<dots> = map_option ?pull (find (\<lambda>q. p_id q = a_paciente a0) (pacientes st))"
    by (intro find_updateFirst) simp
  finally have r1: "map_option p_turnos (Paciente_findById st' (a_paciente a0))
                    = Some (removeAll i (p_turnos viejo))"
    using old by (simp add: Paciente_findById_def ps')
  have "find (\<lambda>q. p_id q = p) ?ps
        = map_option ?push (find (\<lambda>q. p_id q = p)
            (updateFirst (\<lambda>q. p_id q = a_paciente a0) ?pull (pacientes st)))"
    by (intro find_updateFirst) simp
  also have "find (\<lambda>q. p_id q = p)
               (updateFirst (\<lambda>q. p_id q = a_paciente a0) ?pull (pacientes st))
             = find (\<lambda>q. p_id q = p) (pacientes st)"
    using ne by (intro find_updateFirst_other) auto
  finally have r2: "map_option p_turnos (Paciente_findById st' p) = Some (p_turnos nuevo @ [i])"
    using nuevo by (simp add: Paciente_findById_def ps')
  from nuevo r1 r2 show ?thesis by simp
qed

section \<open>A date without a time\<close>

text \<open>
  A date \<^verbatim>\<open>YYYY-MM-DD\<close> combined with a missing time is the Invalid Date under \<open>Date_iso\<close>,
  whatever the runtime does on the other forms.
\<close>

lemma Date_iso_fechaSinHora: "fechaSinHora s \<Longrightarrow> Date_iso R s = InvalidDate"
  by (auto simp: fechaSinHora_def Date_iso_def isoLocal_def split: list.splits)

text \<open>
  Claim C10, as stated, says that a patch with a date and no time is not rejected and that
  the invalid date reaches the two queries and the stored appointment. On \<open>agenda1\<close> the
  patch \<^verbatim>\<open>{fecha: '2025-04-02'}\<close> gives an Invalid Date, the slot query raises on it, and the
  call ends in the generic failure of the handler: the appointment keeps its date.
\<close>

theorem date_without_time_rejected:
  "Date_iso (\<lambda>s. InvalidDate) ''2025-04-02Tundefined'' = InvalidDate \<and>
   findOneOtro agenda1 1 InvalidDate 1 = None \<and>
   editAppointment (Date_iso (\<lambda>s. InvalidDate)) 1 (body0\<lparr>fecha := Some ''2025-04-02''\<rparr>) agenda1
     = (Inl NoSePudoEditar, agenda1)"
  by code_simp

text \<open>
  Claim C10, amended. When the patch gives a date and no time, the edit of an existing
  appointment (with an effective doctor) neither checks the patch nor keeps the
  appointment's date: the effective date is whatever the runtime reads from the combined
  string, the date followed by \<^verbatim>\<open>Tundefined\<close>.
  \<^item> Where the runtime reads it as the Invalid Date, the slot query is given it and raises on
    casting it, and the handler aborts with its generic failure: the day count is not
    reached and nothing is stored.
  \<^item> Where the runtime reads it as an instant, that instant is the one of the slot check
    and of the day count, and a successful edit stores it.
\<close>

theorem date_without_time_effective_date:
  assumes fe: "truthy (fecha b)" and ho: "hora b = None"
    and f: "findById_populate st i = Some turno" and d: "idDoctor b turno = Some d"
  shows
    "nuevaFecha D b turno = D (template (fecha b) @ ''Tundefined'') \<and>
     (D (template (fecha b) @ ''Tundefined'') = InvalidDate \<longrightarrow>
        findOneOtro st d (nuevaFecha D b turno) i = None \<and>
        editAppointment D i b st = (Inl NoSePudoEditar, st)) \<and>
     (\<forall>x. D (template (fecha b) @ ''Tundefined'') = Instant x \<longrightarrow>
        (fst (editAppointment D i b st) = Inl TurnoEnEsaFechaYHora) =
          (\<exists>a \<in> set (appointments st). a_doctor a = d \<and> a_fecha a = x \<and> a_id a \<noteq> i) \<and>
        (find (\<lambda>a. a_doctor a = d \<and> a_fecha a = x \<and> a_id a \<noteq> i) (appointments st) = None \<longrightarrow>
           (fst (editAppointment D i b st) = Inl DiezTurnosEnEseDia) =
             (10 \<le> length (filter (\<lambda>a. a_doctor a = d \<and> x - x mod 86400000 \<le> a_fecha a \<and>
                     a_fecha a \<le> x - x mod 86400000 + 86399999 \<and> a_id a \<noteq> i)
                   (appointments st))))) \<and>
     (\<forall>t st'. editAppointment D i b st = (Inr t, st') \<longrightarrow>
        t_fecha t = D (template (fecha b) @ ''Tundefined'') \<and>
        map_option (\<lambda>a. Instant (a_fecha a)) (Appointment_findById st' i)
          = Some (D (template (fecha b) @ ''Tundefined'')))"
proof -
  let ?v = "D (template (fecha b) @ ''Tundefined'')"
  from fe ho have nf: "nuevaFecha D b turno = ?v"
    by (simp add: nuevaFecha_def)
  have invalid: "findOneOtro st d (nuevaFecha D b turno) i = None \<and>
                 editAppointment D i b st = (Inl NoSePudoEditar, st)" if "?v = InvalidDate"
    using that f d nf
    by (simp add: editAppointment_def editAppointment_on_def list_all_actualizaciones
        enTransaccion_def findOneOtro_def startTransaction_def abortTransaction_def)
  have slot: "(fst (editAppointment D i b st) = Inl TurnoEnEsaFechaYHora) =
              (\<exists>a \<in> set (appointments st). a_doctor a = d \<and> a_fecha a = x \<and> a_id a \<noteq> i)"
    if "?v = Instant x" for x
    unfolding editAppointment_def using f d nf that
    by (intro edit_slot_conflict_iff) simp_all
  have cap: "(fst (editAppointment D i b st) = Inl DiezTurnosEnEseDia) =
             (10 \<le> length (filter (\<lambda>a. a_doctor a = d \<and> x - x mod 86400000 \<le> a_fecha a \<and>
                     a_fecha a \<le> x - x mod 86400000 + 86399999 \<and> a_id a \<noteq> i)
                   (appointments st)))"
    if "?v = Instant x"
      and "find (\<lambda>a. a_doctor a = d \<and> a_fecha a = x \<and> a_id a \<noteq> i) (appointments st) = None"
    for x
    unfolding editAppointment_def using f d nf that
    by (intro edit_cap_threshold) simp_all
  have stored: "t_fecha t = ?v \<and>
                map_option (\<lambda>a. Instant (a_fecha a)) (Appointment_findById st' i) = Some ?v"
    if "editAppointment D i b st = (Inr t, st')" for t st'
  proof -
    from that have "editAppointment_on D patientSchema doctorSchema i b st = (Inr t, st')"
      by (simp add: editAppointment_def)
    from edit_success_stores_fecha [OF this fe] ho show ?thesis by simp
  qed
  have A: "?v = InvalidDate \<longrightarrow>
        findOneOtro st d (nuevaFecha D b turno) i = None \<and>
        editAppointment D i b st = (Inl NoSePudoEditar, st)"
    using invalid by (rule impI)
  have B: "\<forall>x. ?v = Instant x \<longrightarrow>
        (fst (editAppointment D i b st) = Inl TurnoEnEsaFechaYHora) =
          (\<exists>a \<in> set (appointments st). a_doctor a = d \<and> a_fecha a = x \<and> a_id a \<noteq> i) \<and>
        (find (\<lambda>a. a_doctor a = d \<and> a_fecha a = x \<and> a_id a \<noteq> i) (appointments st) = None \<longrightarrow>
           (fst (editAppointment D i b st) = Inl DiezTurnosEnEseDia) =
             (10 \<le> length (filter (\<lambda>a. a_doctor a = d \<and> x - x mod 86400000 \<le> a_fecha a \<and>
                     a_fecha a \<le> x - x mod 86400000 + 86399999 \<and> a_id a \<noteq> i)
                   (appointments st))))"
  proof (intro allI impI conjI)
    fix x assume "?v = Instant x"
    then show "(fst (editAppointment D i b st) = Inl TurnoEnEsaFechaYHora) =
          (\<exists>a \<in> set (appointments st). a_doctor a = d \<and> a_fecha a = x \<and> a_id a \<noteq> i)"
      by (rule slot)
  next
    fix x assume "?v = Instant x"
      and "find (\<lambda>a. a_doctor a = d \<and> a_fecha a = x \<and> a_id a \<noteq> i) (appointments st) = None"
    then show "(fst (editAppointment D i b st) = Inl DiezTurnosEnEseDia) =
             (10 \<le> length (filter (\<lambda>a. a_doctor a = d \<and> x - x mod 86400000 \<le> a_fecha a \<and>
                     a_fecha a \<le> x - x mod 86400000 + 86399999 \<and> a_id a \<noteq> i)
                   (appointments st)))"
      by (rule cap)
  qed
  have C: "\<forall>t st'. editAppointment D i b st = (Inr t, st') \<longrightarrow>
        t_fecha t = ?v \<and>
        map_option (\<lambda>a. Instant (a_fecha a)) (Appointment_findById st' i) = Some ?v"
    using stored by (intro allI impI)
  from nf A B C show ?thesis by (intro conjI)
qed

text \<open>
  Two runs on \<open>agenda1\<close>. The date \<^verbatim>\<open>'2025-04-02'\<close> gives the Invalid Date and the edit
  aborts. Under a runtime that reads \<^verbatim>\<open>'2025-04-02 10:00 (Tundefined'\<close> as 2025-04-02 10:00,
  the date \<^verbatim>\<open>'2025-04-02 10:00 ('\<close> gives that instant, and the edit stores it.
\<close>

theorem date_without_time_effective_date_witness:
  "truthy (fecha (body0\<lparr>fecha := Some ''2025-04-02''\<rparr>)) \<and>
   hora (body0\<lparr>fecha := Some ''2025-04-02''\<rparr>) = None \<and>
   findById_populate agenda1 1
     = Some (populate agenda1 (turno0 1 1 1 1743501600000 ''10:00'' confirmado)) \<and>
   idDoctor (body0\<lparr>fecha := Some ''2025-04-02''\<rparr>)
     (populate agenda1 (turno0 1 1 1 1743501600000 ''10:00'' confirmado)) = Some 1 \<and>
   Date_iso (\<lambda>s. InvalidDate) ''2025-04-02Tundefined'' = InvalidDate \<and>
   editAppointment (Date_iso (\<lambda>s. InvalidDate)) 1 (body0\<lparr>fecha := Some ''2025-04-02''\<rparr>) agenda1
     = (Inl NoSePudoEditar, agenda1) \<and>
   Date_iso (\<lambda>s. if s = ''2025-04-02 10:00 (Tundefined'' then Instant 1743588000000
                   else InvalidDate) ''2025-04-02 10:00 (Tundefined'' = Instant 1743588000000 \<and>
   snd (editAppointment
          (Date_iso (\<lambda>s. if s = ''2025-04-02 10:00 (Tundefined'' then Instant 1743588000000
                          else InvalidDate))
          1 (body0\<lparr>fecha := Some ''2025-04-02 10:00 (''\<rparr>) agenda1)
     = agenda1\<lparr>appointments := [turno0 1 1 1 1743588000000 ''10:00'' confirmado]\<rparr> \<and>
   map_option (\<lambda>a. Instant (a_fecha a))
     (Appointment_findById
        (agenda1\<lparr>appointments := [turno0 1 1 1 1743588000000 ''10:00'' confirmado]\<rparr>) 1)
     = Some (Instant 1743588000000)"
proof -
  let ?D1 = "Date_iso (\<lambda>s. InvalidDate)"
  let ?D2 = "Date_iso (\<lambda>s. if s = ''2025-04-02 10:00 (Tundefined'' then Instant 1743588000000
                             else InvalidDate)"
  let ?b1 = "body0\<lparr>fecha := Some ''2025-04-02''\<rparr>"
  let ?b2 = "body0\<lparr>fecha := Some ''2025-04-02 10:00 (''\<rparr>"
  let ?turno = "populate agenda1 (turno0 1 1 1 1743501600000 ''10:00'' confirmado)"
  let ?st2 = "agenda1\<lparr>appointments := [turno0 1 1 1 1743588000000 ''10:00'' confirmado]\<rparr>"
  have a1: "truthy (fecha ?b1)" by (simp add: body0_def)
  have a2: "hora ?b1 = None" by (simp add: body0_def)
  have a3: "findById_populate agenda1 1 = Some ?turno" by code_simp
  have a4: "idDoctor ?b1 ?turno = Some 1" by code_simp
  have v1: "?D1 (template (fecha ?b1) @ ''Tundefined'') = InvalidDate" by code_simp
  have w1: "?D1 ''2025-04-02Tundefined'' = InvalidDate" by code_simp
  have b1: "truthy (fecha ?b2)" by (simp add: body0_def)
  have b2: "hora ?b2 = None" by (simp add: body0_def)
  have b4: "idDoctor ?b2 ?turno = Some 1" by code_simp
  have v2: "?D2 (template (fecha ?b2) @ ''Tundefined'') = Instant 1743588000000" by code_simp
  have w2: "?D2 ''2025-04-02 10:00 (Tundefined'' = Instant 1743588000000" by code_simp
  have run2: "editAppointment ?D2 1 ?b2 agenda1 = (Inr (?turno\<lparr>t_fecha := Instant 1743588000000\<rparr>), ?st2)"
    by code_simp
  from date_without_time_effective_date [of ?b1 agenda1 1 ?turno 1 ?D1, OF a1 a2 a3 a4] v1
  have r1: "editAppointment ?D1 1 ?b1 agenda1 = (Inl NoSePudoEditar, agenda1)" by simp
  from date_without_time_effective_date [of ?b2 agenda1 1 ?turno 1 ?D2, OF b1 b2 a3 b4] run2 v2
  have r2: "map_option (\<lambda>a. Instant (a_fecha a)) (Appointment_findById ?st2 1)
            = Some (Instant 1743588000000)"
    by simp
  from a1 a2 a3 a4 w1 r1 w2 run2 r2 show ?thesis by simp
qed

end
